theory Spec2Isabelle
  imports Complex_Main "HOL-Library.Monad_Syntax"
begin

section \<open>Python values used by the notebooks\<close>

text \<open>
  A Python \<open>dict\<close> keeps its keys in insertion order and the notebooks iterate over
  \<open>.keys()\<close> to index constraints, so a dictionary is an association list with
  distinct keys.  Python numbers (the notebooks mix \<open>int\<close> and \<open>float\<close>) are
  idealised as real numbers.  A raised exception (\<open>KeyError\<close>, \<open>IndexError\<close>,
  \<open>TypeError\<close>, \<open>ZeroDivisionError\<close>) is the result \<open>None\<close>.
\<close>

type_synonym 'v dict = "(string \<times> 'v) list"

definition keys :: "'v dict \<Rightarrow> string list" where
  "keys d = map fst d"

text \<open>\<open>d[k]\<close>: raises \<open>KeyError\<close> when the key is missing.\<close>

definition getitem :: "'v dict \<Rightarrow> string \<Rightarrow> 'v option" where
  "getitem d k = map_of d k"

text \<open>\<open>d[k] = v\<close>: replaces the value of an existing key in place, appends a new key.\<close>

fun setitem :: "string \<Rightarrow> 'v \<Rightarrow> 'v dict \<Rightarrow> 'v dict" where
  "setitem k v [] = [(k, v)]"
| "setitem k v ((k', v') # d) = (if k = k' then (k, v) # d else (k', v') # setitem k v d)"

text \<open>\<open>xs[i]\<close> for a non-negative index: raises \<open>IndexError\<close> out of range.\<close>

definition index :: "'a list \<Rightarrow> nat \<Rightarrow> 'a option" where
  "index xs i = (if i < length xs then Some (xs ! i) else None)"

section \<open>The algebraic modelling layer\<close>

text \<open>
  The notebooks describe optimisation models through Pyomo.  A model is the list of
  components attached to it, in the order of attachment.  A variable is referred to by
  its path: \<open>m.x["x"]\<close> is \<open>[K ''x'', K ''x'']\<close> and \<open>m.scenario[3].y["y1"]\<close> is
  \<open>[K ''scenario'', N 3, K ''y'', K ''y1'']\<close>.
\<close>

datatype idx = K string | N nat

type_synonym vref = "idx list"

datatype expr =
    Const real
  | Var vref
  | Add expr expr
  | Sub expr expr
  | Mul expr expr
  | Div expr expr
  | Neg expr
  | Exp expr
  | Sum "expr list"

datatype relation = LessEq expr expr | GreaterEq expr expr | Equal expr expr

datatype domain = Reals | NonNegativeReals | Binary

datatype sense = Minimize | Maximize

datatype component =
    SetC string "idx list"
  | VarC vref domain "real option" "real option" "real option"
  | ObjectiveC string sense expr
  | ConstraintC vref relation
  | ExpressionC vref expr
  | BlockC string nat "component list"

text \<open>
  \<open>VarC v dom lb ub init\<close> is one scalar variable (an indexed \<open>Var\<close> contributes one per
  index) with its domain, its optional bounds and its optional initial value.
  \<open>ExpressionC\<close> is a named \<open>Expression\<close> component.
  \<open>BlockC name s cs\<close> is the member \<open>name[s]\<close> of an indexed block; a block without
  index has the index \<open>0\<close>.
\<close>

fun eval :: "(vref \<Rightarrow> real) \<Rightarrow> expr \<Rightarrow> real" where
  "eval a (Const r) = r"
| "eval a (Var v) = a v"
| "eval a (Add e f) = eval a e + eval a f"
| "eval a (Sub e f) = eval a e - eval a f"
| "eval a (Mul e f) = eval a e * eval a f"
| "eval a (Div e f) = eval a e / eval a f"
| "eval a (Neg e) = - eval a e"
| "eval a (Exp e) = exp (eval a e)"
| "eval a (Sum es) = sum_list (map (eval a) es)"

fun holds :: "(vref \<Rightarrow> real) \<Rightarrow> relation \<Rightarrow> bool" where
  "holds a (LessEq e f) = (eval a e \<le> eval a f)"
| "holds a (GreaterEq e f) = (eval a e \<ge> eval a f)"
| "holds a (Equal e f) = (eval a e = eval a f)"

fun in_domain :: "domain \<Rightarrow> real \<Rightarrow> bool" where
  "in_domain Reals r = True"
| "in_domain NonNegativeReals r = (0 \<le> r)"
| "in_domain Binary r = (r = 0 \<or> r = 1)"

definition in_bounds :: "real option \<Rightarrow> real option \<Rightarrow> real \<Rightarrow> bool" where
  "in_bounds lb ub r =
     ((case lb of None \<Rightarrow> True | Some l \<Rightarrow> l \<le> r) \<and> (case ub of None \<Rightarrow> True | Some u \<Rightarrow> r \<le> u))"

text \<open>
  An assignment satisfies a component: a variable lies in its domain and bounds, a
  constraint holds, a block is satisfied componentwise.  Index sets, named expressions and the objective restrict nothing.
\<close>

fun satisfies :: "(vref \<Rightarrow> real) \<Rightarrow> component \<Rightarrow> bool" where
  "satisfies a (SetC n is) = True"
| "satisfies a (VarC v d lb ub init) = (in_domain d (a v) \<and> in_bounds lb ub (a v))"
| "satisfies a (ObjectiveC n s e) = True"
| "satisfies a (ConstraintC n r) = holds a r"
| "satisfies a (ExpressionC n e) = True"
| "satisfies a (BlockC n s cs) = list_all (satisfies a) cs"

definition feasible :: "component list \<Rightarrow> (vref \<Rightarrow> real) \<Rightarrow> bool" where
  "feasible m a = list_all (satisfies a) m"

text \<open>
  The value a variable holds before any solve: its \<open>initialize\<close> value, if it has one.
\<close>

fun var_inits :: "component \<Rightarrow> (vref \<times> real option) list" where
  "var_inits (VarC v d lb ub init) = [(v, init)]"
| "var_inits (BlockC n s cs) = concat (map var_inits cs)"
| "var_inits c = []"

definition initial_value :: "component list \<Rightarrow> vref \<Rightarrow> real option" where
  "initial_value m v = (case map_of (concat (map var_inits m)) v of Some (Some r) \<Rightarrow> Some r | _ \<Rightarrow> None)"

text \<open>
  The external solver.  \<open>SolverFactory(name)\<close> yields a solver; \<open>solver.solve(m)\<close>
  returns a results object with a status and a termination condition and stores a
  numeric value in every variable of the model.  What the solver computes is not part
  of the notebooks, so the factory is a parameter of everything that solves.
\<close>

record solve_result =
  status :: string
  termination_condition :: string
  solution :: "vref \<Rightarrow> real"

type_synonym solver_factory = "string \<Rightarrow> component list \<Rightarrow> solve_result"

text \<open>A model after \<open>solve\<close>: its components and the values loaded into its variables.\<close>

record solved_model =
  components :: "component list"
  val :: "vref \<Rightarrow> real"

section \<open>Robust production planning (notebook 10)\<close>

subsection \<open>Problem data\<close>

type_synonym params =
  "real dict \<times> real dict \<times> real dict dict \<times> real dict dict \<times> real dict"

definition model_params :: "real \<Rightarrow> real \<Rightarrow> real \<Rightarrow> params" where
  "model_params z_A z_B z_D =
    (let c = [(''x'', -10)];
         q = [(''y1'', 0), (''y2'', 0), (''y3'', 1)];
         R = [(''profit'', [(''x'', 0)]),
              (''demand'', [(''x'', 0)]),
              (''labor A'', [(''x'', 0)]),
              (''labor B'', [(''x'', 0)]),
              (''raw materials'', [(''x'', -1)])];
         S = [(''profit'', [(''y1'', - (140 - 50 * z_A - 80 * z_B)),
                           (''y2'', - (120 - 50 * z_A - 40 * z_B)), (''y3'', 1)]),
              (''demand'', [(''y1'', -1), (''y2'', 0), (''y3'', 0)]),
              (''labor A'', [(''y1'', 1), (''y2'', 1 + z_A), (''y3'', 0)]),
              (''labor B'', [(''y1'', 2 + 2 * z_B), (''y2'', 1 + z_B), (''y3'', 0)]),
              (''raw materials'', [(''y1'', 10), (''y2'', 9), (''y3'', 0)])];
         t = [(''profit'', 0),
              (''demand'', -20 * (1 + z_D)),
              (''labor A'', 80),
              (''labor B'', 100),
              (''raw materials'', 0)]
     in (c, q, R, S, t))"

text \<open>
  \<open>model_params(**kw)\<close>: a keyword other than \<open>z_A\<close>, \<open>z_B\<close>, \<open>z_D\<close> raises
  \<open>TypeError\<close>; a missing one takes the default \<open>0\<close>.
\<close>

definition kwarg :: "real dict \<Rightarrow> string \<Rightarrow> real" where
  "kwarg kw k = (case map_of kw k of None \<Rightarrow> 0 | Some v \<Rightarrow> v)"

definition model_params_kw :: "real dict \<Rightarrow> params option" where
  "model_params_kw kw =
    (if list_all (\<lambda>k. k \<in> set [''z_A'', ''z_B'', ''z_D'']) (keys kw)
     then Some (model_params (kwarg kw ''z_A'') (kwarg kw ''z_B'') (kwarg kw ''z_D''))
     else None)"

subsection \<open>Sampling the uncertainty set\<close>

text \<open>
  \<open>z_sample\<close> draws from \<open>np.random.uniform(-1, 1)\<close> three times per round until the
  acceptance test passes.  The random source is the list of the numbers still to be
  drawn; the loop may run for ever, which here is running out of draws (\<open>None\<close>).
\<close>

fun z_sample :: "real list \<Rightarrow> real dict option" where
  "z_sample (u1 # u2 # u3 # us) =
    (let sample = [(''z_A'', 0.15 * u1), (''z_B'', 0.25 * u2), (''z_D'', 0.25 * u3)]
     in case (getitem sample ''z_A'', getitem sample ''z_B'', getitem sample ''z_D'') of
          (Some a, Some b, Some d) \<Rightarrow>
            if a / 0.15 + b / 0.25 + d / 0.25 \<le> 2 then Some sample else z_sample us
        | _ \<Rightarrow> None)"
| "z_sample us = None"

subsection \<open>The master problem\<close>

text \<open>\<open>sum(coef[i] * var(i) for i in ks)\<close>, with \<open>coef[i]\<close> raising on a missing key.\<close>

definition weighted_sum :: "real dict \<Rightarrow> (string \<Rightarrow> vref) \<Rightarrow> string list \<Rightarrow> expr option" where
  "weighted_sum coef var ks =
    map_option Sum (those (map (\<lambda>i. map_option (\<lambda>r. Mul (Const r) (Var (var i))) (getitem coef i)) ks))"

definition x_var :: "string \<Rightarrow> vref" where
  "x_var i = [K ''x'', K i]"

definition y_var :: "nat \<Rightarrow> string \<Rightarrow> vref" where
  "y_var s j = [K ''scenario'', N s, K ''y'', K j]"

definition t_var :: vref where
  "t_var = [K ''t'']"

text \<open>The rule of the block \<open>scenario[s]\<close> of \<open>max_min_profit\<close>.\<close>

definition master_scenario ::
  "(real dict \<Rightarrow> params option) \<Rightarrow> real dict list \<Rightarrow> string list \<Rightarrow> string list \<Rightarrow> nat \<Rightarrow> component option" where
  "master_scenario mp Z I J s = do {
     z \<leftarrow> index Z s;
     (c, q, R, S, t) \<leftarrow> mp z;
     let y = map (\<lambda>j. VarC (y_var s j) NonNegativeReals None None None) J;
     stage_net_profit \<leftarrow>
       (if ''y3'' \<in> set J
        then Some (ConstraintC [K ''stage_net_profit''] (GreaterEq (Var (y_var s ''y3'')) (Var t_var)))
        else None);
     model_constraints \<leftarrow> those (map (\<lambda>k. do {
         Rk \<leftarrow> getitem R k;
         Sk \<leftarrow> getitem S k;
         tk \<leftarrow> getitem t k;
         lhs1 \<leftarrow> weighted_sum Rk x_var I;
         lhs2 \<leftarrow> weighted_sum Sk (y_var s) J;
         Some (ConstraintC [K ''model_constraints'', K k] (LessEq (Add lhs1 lhs2) (Const tk)))
       }) (keys S));
     Some (BlockC ''scenario'' s (y @ [stage_net_profit] @ model_constraints))
   }"

definition max_min_profit_model ::
  "(real dict \<Rightarrow> params option) \<Rightarrow> real dict list \<Rightarrow> component list option" where
  "max_min_profit_model mp Z = do {
     (c, q, R, S, t) \<leftarrow> mp [];
     let I = keys c;
     let J = keys q;
     let x = map (\<lambda>i. VarC (x_var i) NonNegativeReals None None None) I;
     let tv = VarC t_var Reals None None None;
     let SCENARIOS = [0..<length Z];
     scenario \<leftarrow> those (map (master_scenario mp Z I J) SCENARIOS);
     obj \<leftarrow> weighted_sum c x_var (keys c);
     let min_profit = ObjectiveC ''min_profit'' Maximize (Add obj (Var t_var));
     Some ([SetC ''I'' (map K I), SetC ''J'' (map K J)] @ x @ [tv]
           @ [SetC ''SCENARIOS'' (map N SCENARIOS)] @ scenario @ [min_profit])
   }"

text \<open>
  \<open>max_min_profit\<close> builds the model, solves it with \<open>cbc\<close>, drops the results object
  and returns the model with the solver's values in it.
\<close>

definition max_min_profit ::
  "solver_factory \<Rightarrow> (real dict \<Rightarrow> params option) \<Rightarrow> real dict list \<Rightarrow> solved_model option" where
  "max_min_profit SolverFactory mp Z = do {
     m \<leftarrow> max_min_profit_model mp Z;
     let solver = SolverFactory ''cbc'';
     let result = solver m;
     Some \<lparr>components = m, val = solution result\<rparr>
   }"

subsection \<open>The second-stage and the expected-profit variants\<close>

text \<open>
  \<open>max_profit(model_params, Z, x)\<close> never uses its argument \<open>x\<close>.  Inside the block rule the
  names \<open>c\<close> and \<open>q\<close> are those of the scenario, and \<open>b.model().x[i]\<close> raises \<open>KeyError\<close>
  for an \<open>i\<close> that does not index \<open>m.x\<close>.
\<close>

definition profit_scenario ::
  "(real dict \<Rightarrow> params option) \<Rightarrow> real dict list \<Rightarrow> string list \<Rightarrow> nat \<Rightarrow> component option" where
  "profit_scenario mp Z I s = do {
     z \<leftarrow> index Z s;
     (c, q, R, S, t) \<leftarrow> mp z;
     let y = map (\<lambda>j. VarC (y_var s j) NonNegativeReals None None None) (keys q);
     stage_net_profit \<leftarrow>
       (if ''y3'' \<in> set (keys q)
        then Some (ConstraintC [K ''stage_net_profit''] (GreaterEq (Var (y_var s ''y3'')) (Var t_var)))
        else None);
     Sp \<leftarrow> getitem S ''profit'';
     Sp1 \<leftarrow> getitem Sp ''y1'';
     Sp2 \<leftarrow> getitem Sp ''y2'';
     profit \<leftarrow>
       (if list_all (\<lambda>i. i \<in> set I) (keys c) \<and> ''y1'' \<in> set (keys q) \<and> ''y2'' \<in> set (keys q)
        then Some (ExpressionC [K ''profit'']
               (Sub (Sub (Mul (Const (-10)) (Sum (map (\<lambda>i. Var (x_var i)) (keys c))))
                         (Mul (Const Sp1) (Var (y_var s ''y1''))))
                    (Mul (Const Sp2) (Var (y_var s ''y2'')))))
        else None);
     model_constraints \<leftarrow> those (map (\<lambda>k. do {
         Rk \<leftarrow> getitem R k;
         Sk \<leftarrow> getitem S k;
         tk \<leftarrow> getitem t k;
         lhs1 \<leftarrow> weighted_sum Rk x_var (keys c);
         lhs2 \<leftarrow> weighted_sum Sk (y_var s) (keys q);
         Some (ConstraintC [K ''model_constraints'', K k] (LessEq (Add lhs1 lhs2) (Const tk)))
       }) (keys S));
     Some (BlockC ''scenario'' s (y @ [stage_net_profit, profit] @ model_constraints))
   }"

definition max_profit_model ::
  "(real dict \<Rightarrow> params option) \<Rightarrow> real dict list \<Rightarrow> component list option" where
  "max_profit_model mp Z = do {
     (c, q, R, S, t) \<leftarrow> mp [];
     let x = map (\<lambda>i. VarC (x_var i) NonNegativeReals None None None) (keys c);
     let tv = VarC t_var Reals None None None;
     let SCENARIOS = [0..<length Z];
     scenario \<leftarrow> those (map (profit_scenario mp Z (keys c)) SCENARIOS);
     obj \<leftarrow> weighted_sum c x_var (keys c);
     let min_profit = ObjectiveC ''min_profit'' Maximize (Add obj (Var t_var));
     Some (x @ [tv] @ [SetC ''SCENARIOS'' (map N SCENARIOS)] @ scenario @ [min_profit])
   }"

definition max_profit ::
  "solver_factory \<Rightarrow> (real dict \<Rightarrow> params option) \<Rightarrow> real dict list \<Rightarrow> real \<Rightarrow> solved_model option" where
  "max_profit SolverFactory mp Z x = do {
     m \<leftarrow> max_profit_model mp Z;
     let solver = SolverFactory ''gurobi'';
     let result = solver m;
     Some \<lparr>components = m, val = solution result\<rparr>
   }"

text \<open>
  \<open>max_expected_profit\<close> writes \<open>m.scenario[s].y["y3"]()\<close> in its objective: the call
  evaluates the variable while the model is built.  A variable without a value makes the
  sum raise, and so does the division by \<open>len(m.SCENARIOS)\<close> for an empty list.
\<close>

definition expected_scenario ::
  "(real dict \<Rightarrow> params option) \<Rightarrow> real dict list \<Rightarrow> string list \<Rightarrow> nat \<Rightarrow> component option" where
  "expected_scenario mp Z I s = do {
     z \<leftarrow> index Z s;
     (c, q, R, S, t) \<leftarrow> mp z;
     let y = map (\<lambda>j. VarC (y_var s j) NonNegativeReals None None None) (keys q);
     model_constraints \<leftarrow> those (map (\<lambda>k. do {
         Rk \<leftarrow> getitem R k;
         Sk \<leftarrow> getitem S k;
         tk \<leftarrow> getitem t k;
         lhs1 \<leftarrow> (if list_all (\<lambda>i. i \<in> set I) (keys c) then weighted_sum Rk x_var (keys c) else None);
         lhs2 \<leftarrow> weighted_sum Sk (y_var s) (keys q);
         Some (ConstraintC [K ''model_constraints'', K k] (LessEq (Add lhs1 lhs2) (Const tk)))
       }) (keys S));
     Some (BlockC ''scenario'' s (y @ model_constraints))
   }"

definition max_expected_profit_model ::
  "(real dict \<Rightarrow> params option) \<Rightarrow> real dict list \<Rightarrow> component list option" where
  "max_expected_profit_model mp Z = do {
     (c, q, R, S, t) \<leftarrow> mp [];
     let x = map (\<lambda>i. VarC (x_var i) NonNegativeReals None None None) (keys c);
     let SCENARIOS = [0..<length Z];
     scenario \<leftarrow> those (map (expected_scenario mp Z (keys c)) SCENARIOS);
     obj \<leftarrow> weighted_sum c x_var (keys c);
     y3 \<leftarrow> those (map (\<lambda>s. initial_value scenario (y_var s ''y3'')) SCENARIOS);
     mean \<leftarrow> (if length SCENARIOS = 0 then None else Some (sum_list y3 / real (length SCENARIOS)));
     let min_profit = ObjectiveC ''min_profit'' Maximize (Add obj (Const mean));
     Some (x @ [SetC ''SCENARIOS'' (map N SCENARIOS)] @ scenario @ [min_profit])
   }"

definition max_expected_profit ::
  "solver_factory \<Rightarrow> (real dict \<Rightarrow> params option) \<Rightarrow> real dict list \<Rightarrow> solved_model option" where
  "max_expected_profit SolverFactory mp Z = do {
     m \<leftarrow> max_expected_profit_model mp Z;
     let solver = SolverFactory ''gurobi'';
     let result = solver m;
     Some \<lparr>components = m, val = solution result\<rparr>
   }"

subsection \<open>The pessimization problem\<close>

type_synonym subparams = "real dict dict \<times> real dict"

definition subproblem_params :: "real dict \<Rightarrow> subparams option" where
  "subproblem_params dec = do {
     y1 \<leftarrow> getitem dec ''y1'';
     y2 \<leftarrow> getitem dec ''y2'';
     y3 \<leftarrow> getitem dec ''y3'';
     let Left = [(''demand'', [(''z_A'', 0), (''z_B'', 0), (''z_D'', 20)]),
                 (''profit'', [(''z_A'', 50 * y1 + 50 * y2), (''z_B'', 80 * y1 + 40 * y2), (''z_D'', 0)]),
                 (''labor A'', [(''z_A'', y1 + y2), (''z_B'', 0), (''z_D'', 0)]),
                 (''labor B'', [(''z_A'', 0), (''z_B'', 2 * y1 + y2), (''z_D'', 0)])];
     let Right = [(''demand'', y1 - 20),
                  (''profit'', 140 * y1 + 120 * y2 - y3),
                  (''labor A'', 80 - y1 - y2),
                  (''labor B'', 100 - 2 * y1 - y2)];
     Some (Left, Right)
   }"

definition z_var :: "string \<Rightarrow> vref" where
  "z_var i = [K ''z'', K i]"

definition z_abs_var :: "string \<Rightarrow> vref" where
  "z_abs_var i = [K ''z_abs'', K i]"

definition theta_var :: vref where
  "theta_var = [K ''theta'']"

definition u_var :: "nat \<Rightarrow> string \<Rightarrow> vref" where
  "u_var s k = [K ''scenario'', N s, K ''u'', K k]"

definition big_M :: real where
  "big_M = 1000"

text \<open>The rule of the block \<open>scenario[s]\<close> of \<open>pessimization_problem\<close>.\<close>

definition pessimization_scenario ::
  "(real dict \<Rightarrow> subparams option) \<Rightarrow> real dict list \<Rightarrow> string list \<Rightarrow> nat \<Rightarrow> component option" where
  "pessimization_scenario sp master_solution Z_INDICES s = do {
     dec \<leftarrow> index master_solution s;
     (L, R) \<leftarrow> sp dec;
     let u = map (\<lambda>k. VarC (u_var s k) Binary None None None) (keys L);
     let at_least_one_violated = ConstraintC [K ''at_least_one_violated'']
           (LessEq (Sum (map (\<lambda>k. Var (u_var s k)) (filter (\<lambda>k. k \<noteq> ''profit'') (keys L))))
                   (Const (real_of_int (int (length (keys L)) - 2))));
     model_constraints \<leftarrow> those (map (\<lambda>k. do {
         Lk \<leftarrow> getitem L k;
         Rk \<leftarrow> getitem R k;
         lhs \<leftarrow> weighted_sum Lk z_var Z_INDICES;
         Some (ConstraintC [K ''model_constraints'', K k]
                 (GreaterEq (Sub lhs (Var theta_var))
                            (Sub (Const Rk) (Mul (Var (u_var s k)) (Const big_M)))))
       }) (keys L));
     Some (BlockC ''scenario'' s (u @ [at_least_one_violated] @ model_constraints))
   }"

definition pessimization_model ::
  "(real dict \<Rightarrow> subparams option) \<Rightarrow> real dict list \<Rightarrow> real \<Rightarrow> real \<Rightarrow> real \<Rightarrow> real \<Rightarrow> component list option" where
  "pessimization_model sp master_solution z_A_max z_B_max z_D_max Gamma = do {
     dec0 \<leftarrow> index master_solution 0;
     (L, R) \<leftarrow> sp dec0;
     let Z_INDICES = [''z_A'', ''z_B'', ''z_D''];
     let SCENARIOS = [0..<length master_solution];
     let z = map (\<lambda>i. VarC (z_var i) Reals None None None) Z_INDICES;
     let z_abs = map (\<lambda>i. VarC (z_abs_var i) NonNegativeReals None None None) Z_INDICES;
     let theta = VarC theta_var Reals None None None;
     let A_ub = ConstraintC [K ''A_ub''] (LessEq (Var (z_var ''z_A'')) (Const z_A_max));
     let A_lb = ConstraintC [K ''A_lb''] (LessEq (Neg (Var (z_var ''z_A''))) (Const z_A_max));
     let A_abs = ConstraintC [K ''A_abs''] (LessEq (Var (z_var ''z_A'')) (Var (z_abs_var ''z_A'')));
     let B_lb = ConstraintC [K ''B_lb''] (LessEq (Var (z_var ''z_B'')) (Const z_B_max));
     let B_ub = ConstraintC [K ''B_ub''] (LessEq (Neg (Var (z_var ''z_B''))) (Const z_B_max));
     let B_abs = ConstraintC [K ''B_abs''] (LessEq (Var (z_var ''z_B'')) (Var (z_abs_var ''z_B'')));
     let D_lb = ConstraintC [K ''D_lb''] (LessEq (Var (z_var ''z_D'')) (Const z_D_max));
     let D_ub = ConstraintC [K ''D_ub''] (LessEq (Neg (Var (z_var ''z_D''))) (Const z_D_max));
     let D_abs = ConstraintC [K ''D_abs''] (LessEq (Var (z_var ''z_D'')) (Var (z_abs_var ''z_D'')));
     z_budget \<leftarrow>
       (if z_A_max = 0 \<or> z_B_max = 0 \<or> z_D_max = 0 then None
        else Some (ConstraintC [K ''z_budget'']
          (LessEq (Add (Add (Div (Var (z_abs_var ''z_A'')) (Const z_A_max))
                            (Div (Var (z_abs_var ''z_B'')) (Const z_B_max)))
                       (Div (Var (z_abs_var ''z_D'')) (Const z_D_max)))
                  (Const Gamma))));
     scenario \<leftarrow> those (map (pessimization_scenario sp master_solution Z_INDICES) SCENARIOS);
     let max_violation = ObjectiveC ''max_violation'' Maximize (Var theta_var);
     Some ([SetC ''Z_INDICES'' (map K Z_INDICES), SetC ''SCENARIOS'' (map N SCENARIOS)]
           @ z @ z_abs @ [theta]
           @ [A_ub, A_lb, A_abs, B_lb, B_ub, B_abs, D_lb, D_ub, D_abs, z_budget]
           @ scenario @ [max_violation])
   }"

text \<open>
  \<open>pessimization_problem\<close> solves the model with \<open>gurobi\<close>, drops the results object and
  returns \<open>m.theta(), m.z["z_A"](), m.z["z_B"](), m.z["z_D"]()\<close>.
\<close>

definition pessimization_problem ::
  "solver_factory \<Rightarrow> (real dict \<Rightarrow> subparams option) \<Rightarrow> real dict list
     \<Rightarrow> real \<Rightarrow> real \<Rightarrow> real \<Rightarrow> real \<Rightarrow> (real \<times> real \<times> real \<times> real) option" where
  "pessimization_problem SolverFactory sp master_solution z_A_max z_B_max z_D_max Gamma = do {
     m \<leftarrow> pessimization_model sp master_solution z_A_max z_B_max z_D_max Gamma;
     let solver = SolverFactory ''gurobi'';
     let result = solver m;
     let v = solution result;
     Some (v theta_var, v (z_var ''z_A''), v (z_var ''z_B''), v (z_var ''z_D''))
   }"

subsection \<open>Column and constraint generation\<close>

text \<open>
  The driver is a script: its variables \<open>ccg_converged\<close>, \<open>ccg_iterations\<close>, \<open>Z\<close> and
  \<open>theta_opt\<close> are the state of the loop (\<open>theta_opt\<close> is unbound before the first
  pessimization).  What the script prints is not modelled.
\<close>

record ccg_state =
  ccg_converged :: bool
  ccg_iterations :: nat
  Z :: "real dict list"
  theta_opt :: "real option"

definition stopping_precision :: real where
  "stopping_precision = 0.1"

definition max_iterations :: nat where
  "max_iterations = 50"

definition ccg_init :: ccg_state where
  "ccg_init = \<lparr>ccg_converged = False, ccg_iterations = 0,
               Z = [[(''z_A'', 0), (''z_B'', 0), (''z_D'', 0)]], theta_opt = None\<rparr>"

text \<open>
  The two inner \<open>for\<close> loops that fill \<open>single_solution\<close> for scenario \<open>s\<close>, and the
  outer loop that collects \<open>master_solution\<close>.
\<close>

definition single_solution :: "solved_model \<Rightarrow> real dict \<Rightarrow> real dict \<Rightarrow> nat \<Rightarrow> real dict" where
  "single_solution m c q s =
     fold (\<lambda>y_key d. setitem y_key (val m (y_var s y_key)) d) (keys q)
       (fold (\<lambda>x_key d. setitem x_key (val m (x_var x_key)) d) (keys c) [])"

definition export_solution :: "solved_model \<Rightarrow> real dict \<Rightarrow> real dict \<Rightarrow> nat \<Rightarrow> real dict list" where
  "export_solution m c q n = map (single_solution m c q) [0..<n]"

text \<open>One pass through the body of the \<open>while\<close> loop.\<close>

definition ccg_body :: "solver_factory \<Rightarrow> ccg_state \<Rightarrow> ccg_state option" where
  "ccg_body SolverFactory st = do {
     m \<leftarrow> max_min_profit SolverFactory model_params_kw (Z st);
     (c, q, R, S, t) \<leftarrow> model_params_kw [];
     let ms = export_solution m c q (length (Z st));
     ms0 \<leftarrow> index ms 0;
     printed \<leftarrow> getitem ms0 ''x'';
     (theta, z_A, z_B, z_D) \<leftarrow> pessimization_problem SolverFactory subproblem_params ms 0.15 0.25 0.25 2;
     let st' = (if theta < stopping_precision
                then st\<lparr>ccg_converged := True\<rparr>
                else st\<lparr>Z := Z st @ [[(''z_A'', z_A), (''z_B'', z_B), (''z_D'', z_D)]]\<rparr>);
     Some (st'\<lparr>ccg_iterations := ccg_iterations st + 1, theta_opt := Some theta\<rparr>)
   }"

lemma ccg_body_iterations:
  "ccg_body SolverFactory st = Some st' \<Longrightarrow> ccg_iterations st' = ccg_iterations st + 1"
  by (auto simp: ccg_body_def Let_def bind_eq_Some_conv split: if_splits)

function ccg_loop :: "solver_factory \<Rightarrow> ccg_state \<Rightarrow> ccg_state option" where
  "ccg_loop SolverFactory st =
    (if \<not> ccg_converged st \<and> ccg_iterations st < max_iterations
     then (case ccg_body SolverFactory st of
             None \<Rightarrow> None
           | Some st' \<Rightarrow> ccg_loop SolverFactory st')
     else Some st)"
  by pat_completeness auto
termination
  by (relation "measure (\<lambda>(sf, st). max_iterations - ccg_iterations st)")
     (auto dest: ccg_body_iterations)

declare ccg_loop.simps [simp del]

section \<open>Portfolio selection with a chance constraint (notebook 05)\<close>

text \<open>
  The data of the script.  \<open>norm.ppf\<close>, the quantile function of the standard normal
  distribution, comes from \<open>scipy\<close> and is a parameter of the model.
\<close>

definition alpha :: real where
  "alpha = 0.5"

definition beta :: real where
  "beta = 0.3"

definition n_assets :: nat where
  "n_assets = 3"

definition z_mean :: "real list" where
  "z_mean = [1.05, 1.15, 1.3]"

definition z_cov :: "real list list" where
  "z_cov = [[1, 0.5, 2], [0.5, 2, 0], [2, 0, 5]]"

definition asset_var :: "nat \<Rightarrow> vref" where
  "asset_var i = [K ''x'', N i]"

text \<open>
  The operator \<open>@\<close> of \<open>numpy\<close> on the indexed variable \<open>model.x\<close>: a vector of numbers
  times \<open>x\<close>, a matrix times \<open>x\<close>, and \<open>x\<close> times a vector of expressions.
\<close>

definition vec_at_x :: "real list \<Rightarrow> expr" where
  "vec_at_x v = Sum (map (\<lambda>(i, r). Mul (Const r) (Var (asset_var i))) (enumerate 0 v))"

definition mat_at_x :: "real list list \<Rightarrow> expr list" where
  "mat_at_x M = map vec_at_x M"

definition x_at_vec :: "expr list \<Rightarrow> expr" where
  "x_at_vec es = Sum (map (\<lambda>(i, e). Mul (Var (asset_var i)) e) (enumerate 0 es))"

definition portfolio_model :: "(real \<Rightarrow> real) \<Rightarrow> component list" where
  "portfolio_model norm_ppf =
    (let x = map (\<lambda>i. VarC (asset_var i) NonNegativeReals None None None) [0..<n_assets];
         y = VarC [K ''y''] Reals None None None;
         objective = ObjectiveC ''objective'' Maximize (vec_at_x z_mean);
         chance_constraint = ConstraintC [K ''chance_constraint'']
           (LessEq (Mul (Const (norm_ppf (1 - beta))) (x_at_vec (mat_at_x z_cov)))
                   (Sub (vec_at_x z_mean) (Const alpha)));
         total_assets = ConstraintC [K ''total_assets'']
           (Equal (Sum (map (\<lambda>i. Var (asset_var i)) [0..<n_assets])) (Const 1))
     in x @ [y, objective, chance_constraint, total_assets])"

text \<open>
  The events of a script that its reader can observe, in the order they happen: the
  display of a model with the values its variables hold, a printed expression, a call of
  a solver, the solver status line, displayed solution values and a displayed objective
  value.
\<close>

datatype event =
    ModelDisplay "component list" "(vref \<times> real option) list"
  | PrintExpr expr
  | SolverCall string
  | SolverStatus string string
  | SolutionValues "real list"
  | ObjectiveValue real

text \<open>
  The script solves the model with \<open>cplex_direct\<close>, keeps the results object and uses
  it for the status line only; the solution and the objective value are read from the
  model.
\<close>

definition portfolio_script :: "solver_factory \<Rightarrow> (real \<Rightarrow> real) \<Rightarrow> event list" where
  "portfolio_script SolverFactory norm_ppf =
    (let cplex_solver = SolverFactory ''cplex_direct'';
         model = portfolio_model norm_ppf;
         result = cplex_solver model;
         v = solution result
     in [SolverCall ''cplex_direct'',
         SolverStatus (status result) (termination_condition result),
         SolutionValues [v (asset_var 0), v (asset_var 1), v (asset_var 2)],
         ObjectiveValue (eval v (vec_at_x z_mean))])"

text \<open>
  The mathematics the chance constraint is compared with: the quadratic form
  \<open>x\<^sup>T \<Sigma> x\<close> of the covariance matrix and the mean return \<open>z_mean\<^sup>T x\<close> of a portfolio
  \<open>x\<close>.  For a positive semidefinite \<open>\<Sigma>\<close> the norm \<open>\<parallel>\<Sigma>\<^sup>1\<^sup>/\<^sup>2 x\<parallel>\<^sub>2\<close> of the second-order cone
  formulation is the square root of the quadratic form.
\<close>

definition quadratic_form :: "(nat \<Rightarrow> real) \<Rightarrow> real" where
  "quadratic_form x = (\<Sum>i<3. x i * (\<Sum>j<3. z_cov ! i ! j * x j))"

definition mean_return :: "(nat \<Rightarrow> real) \<Rightarrow> real" where
  "mean_return x = (\<Sum>i<3. z_mean ! i * x i)"

definition sigma_norm :: "(nat \<Rightarrow> real) \<Rightarrow> real" where
  "sigma_norm x = sqrt (quadratic_form x)"


subsection \<open>The portfolio with a cardinality-constrained uncertainty set\<close>

definition deltareturn :: "nat \<Rightarrow> real" where
  "deltareturn j = (0.05 / 300) * sqrt (45300 * real j)"

definition nominalreturn :: "nat \<Rightarrow> real" where
  "nominalreturn j = 1.15 + real j * (0.05 / 100)"

definition pf_x :: "nat \<Rightarrow> vref" where
  "pf_x j = [K ''x'', N j]"

definition pf_z :: "nat \<Rightarrow> vref" where
  "pf_z j = [K ''z'', N j]"

definition pf_w :: vref where
  "pf_w = [K ''w'']"

definition pf_l :: vref where
  "pf_l = [K ''l'']"

definition robust_portfolio_model :: "real \<Rightarrow> component list" where
  "robust_portfolio_model Gamma =
    (let n = 100;
         indices = [1..<n + 1];
         capital = 1000;
         x = map (\<lambda>j. VarC (pf_x j) NonNegativeReals None None None) indices;
         w = VarC pf_w NonNegativeReals None None None;
         budget = ConstraintC [K ''budget''] (Equal (Sum (map (\<lambda>j. Var (pf_x j)) indices)) (Const capital));
         z = map (\<lambda>j. VarC (pf_z j) NonNegativeReals None None None) indices;
         l = VarC pf_l NonNegativeReals None None None;
         cardinalityconstraint = ConstraintC [K ''cardinalityconstraint'']
           (LessEq (Add (Add (Neg (Sum (map (\<lambda>j. Mul (Const (nominalreturn j)) (Var (pf_x j))) indices)))
                             (Mul (Var pf_l) (Const Gamma)))
                        (Sum (map (\<lambda>j. Var (pf_z j)) indices)))
                   (Neg (Var pf_w)));
         lower = map (\<lambda>j. ConstraintC [K ''lower'', N j]
           (GreaterEq (Var (pf_z j)) (Sub (Mul (Neg (Var (pf_x j))) (Const (deltareturn j))) (Var pf_l)))) indices;
         upper = map (\<lambda>j. ConstraintC [K ''upper'', N j]
           (GreaterEq (Var (pf_z j)) (Sub (Mul (Var (pf_x j)) (Const (deltareturn j))) (Var pf_l)))) indices;
         profit = ObjectiveC ''profit'' Maximize (Var pf_w)
     in [SetC ''indices'' (map N indices)] @ x @ [w, budget] @ z @ [l] @ lower @ upper
        @ [cardinalityconstraint, profit])"

text \<open>\<open>round(v, 3)\<close>: to three decimals, a tie going to the even neighbour.\<close>

definition round3 :: "real \<Rightarrow> real" where
  "round3 v =
    (let s = v * 1000; f = \<lfloor>s\<rfloor>
     in real_of_int (if s - real_of_int f < 1 / 2 then f
                     else if s - real_of_int f > 1 / 2 then f + 1
                     else if even f then f else f + 1) / 1000)"

text \<open>
  \<open>portfolio(Gamma, printflag)\<close> solves with \<open>cbc\<close>.  The results object is read only under
  \<open>if printflag\<close>, for the status line.  The function returns the objective value and the
  rounded solution.
\<close>

definition portfolio :: "solver_factory \<Rightarrow> real \<Rightarrow> bool \<Rightarrow> event list \<times> real \<times> real list" where
  "portfolio SolverFactory Gamma printflag =
    (let cbc_solver = SolverFactory ''cbc'';
         model = robust_portfolio_model Gamma;
         result = cbc_solver model;
         v = solution result;
         indices = [1..<101];
         shown = (if printflag
                  then [SolverStatus (status result) (termination_condition result)]
                       @ map (\<lambda>i. SolutionValues [v (pf_x i)]) indices
                       @ [ObjectiveValue (v pf_w)]
                  else [])
     in (SolverCall ''cbc'' # shown, v pf_w, map (\<lambda>i. round3 (v (pf_x i))) indices))"



section \<open>The Kelly criterion (notebook 06)\<close>

text \<open>
  \<open>conic.primal_exponential.as_domain(r, x1, x2)\<close> belongs to \<open>pyomo.kernel\<close>, not to the
  notebooks.  As the library documents it, it returns a block with the auxiliary variables
  \<open>r\<close> and \<open>x1\<close> (both with lower bound \<open>0\<close>) and \<open>x2\<close>, the constraints \<open>c\<close> that link
  them to the three arguments by equalities, and the conic constraint \<open>q\<close>, which is
  \<open>x1 * exp(x2 / x1) \<le> r\<close> and which the library keeps as \<open>x1 * exp(x2 / x1) - r \<le> 0\<close>.
\<close>

definition primal_exponential_as_domain :: "string \<Rightarrow> expr \<Rightarrow> expr \<Rightarrow> expr \<Rightarrow> component" where
  "primal_exponential_as_domain name r x1 x2 =
    BlockC name 0
      [VarC [K name, K ''r''] Reals (Some 0) None None,
       VarC [K name, K ''x1''] Reals (Some 0) None None,
       VarC [K name, K ''x2''] Reals None None None,
       ConstraintC [K ''c'', N 0] (Equal (Var [K name, K ''r'']) r),
       ConstraintC [K ''c'', N 1] (Equal (Var [K name, K ''x1'']) x1),
       ConstraintC [K ''c'', N 2] (Equal (Var [K name, K ''x2'']) x2),
       ConstraintC [K ''q'']
         (LessEq (Sub (Mul (Var [K name, K ''x1''])
                           (Exp (Div (Var [K name, K ''x2'']) (Var [K name, K ''x1'']))))
                      (Var [K name, K ''r'']))
                 (Const 0))]"

definition kelly_model :: "real \<Rightarrow> real \<Rightarrow> component list" where
  "kelly_model p b =
    [VarC [K ''q1''] Reals None None None,
     VarC [K ''q2''] Reals None None None,
     VarC [K ''w''] Reals (Some 0) None None,
     ObjectiveC ''ElogR'' Maximize
       (Add (Mul (Const p) (Var [K ''q1''])) (Mul (Const (1 - p)) (Var [K ''q2'']))),
     primal_exponential_as_domain ''t1'' (Add (Const 1) (Mul (Const b) (Var [K ''w'']))) (Const 1) (Var [K ''q1'']),
     primal_exponential_as_domain ''t2'' (Sub (Const 1) (Var [K ''w''])) (Const 1) (Var [K ''q2''])]"

definition kelly :: "solver_factory \<Rightarrow> real \<Rightarrow> real \<Rightarrow> real" where
  "kelly SolverFactory p b =
    (let m = kelly_model p b;
         result = SolverFactory ''mosek_direct'' m
     in solution result [K ''w''])"

definition kelly_rc_model :: "real \<Rightarrow> real \<Rightarrow> real \<Rightarrow> component list" where
  "kelly_rc_model p b lambd =
    [VarC [K ''q1''] Reals None None None,
     VarC [K ''q2''] Reals None None None,
     VarC [K ''w''] Reals (Some 0) None None,
     ObjectiveC ''ElogR'' Maximize
       (Add (Mul (Const p) (Var [K ''q1''])) (Mul (Const (1 - p)) (Var [K ''q2'']))),
     primal_exponential_as_domain ''t1'' (Add (Const 1) (Mul (Const b) (Var [K ''w'']))) (Const 1) (Var [K ''q1'']),
     primal_exponential_as_domain ''t2'' (Sub (Const 1) (Var [K ''w''])) (Const 1) (Var [K ''q2'']),
     VarC [K ''u1''] Reals (Some 0) None None,
     VarC [K ''u2''] Reals (Some 0) None None,
     ConstraintC [K ''r0''] (LessEq (Add (Var [K ''u1'']) (Var [K ''u2''])) (Const 1)),
     primal_exponential_as_domain ''r1'' (Var [K ''u1'']) (Const 1) (Sub (Const (ln p)) (Mul (Const lambd) (Var [K ''q1'']))),
     primal_exponential_as_domain ''r2'' (Var [K ''u2'']) (Const 1) (Sub (Const (ln (1 - p))) (Mul (Const lambd) (Var [K ''q2''])))]"

definition kelly_rc :: "solver_factory \<Rightarrow> real \<Rightarrow> real \<Rightarrow> real \<Rightarrow> real" where
  "kelly_rc SolverFactory p b lambd =
    (let m = kelly_rc_model p b lambd;
         result = SolverFactory ''mosek_direct'' m
     in solution result [K ''w''])"

section \<open>Production planning (notebook 01)\<close>

text \<open>
  The notebook is a script that builds its model step by step and displays it on the
  way.  Its workspace holds the model built so far, the values of the variables and the
  events so far.  A declared variable holds its \<open>initialize\<close> value; \<open>solve\<close> stores the
  solver's value in every variable of the model.
\<close>

record workspace =
  ws_model :: "component list"
  ws_values :: "vref \<Rightarrow> real option"
  ws_log :: "event list"

definition empty_workspace :: workspace where
  "empty_workspace = \<lparr>ws_model = [], ws_values = (\<lambda>v. None), ws_log = []\<rparr>"

definition declared_vars :: "component list \<Rightarrow> vref list" where
  "declared_vars m = map fst (concat (map var_inits m))"

definition declare_component :: "component \<Rightarrow> workspace \<Rightarrow> workspace" where
  "declare_component c ws =
     ws\<lparr>ws_model := ws_model ws @ [c],
        ws_values := (\<lambda>v. case map_of (var_inits c) v of Some init \<Rightarrow> init | None \<Rightarrow> ws_values ws v)\<rparr>"

definition display :: "workspace \<Rightarrow> workspace" where
  "display ws =
     ws\<lparr>ws_log := ws_log ws
          @ [ModelDisplay (ws_model ws) (map (\<lambda>v. (v, ws_values ws v)) (declared_vars (ws_model ws)))]\<rparr>"

definition print_expr :: "expr \<Rightarrow> workspace \<Rightarrow> workspace" where
  "print_expr e ws = ws\<lparr>ws_log := ws_log ws @ [PrintExpr e]\<rparr>"

definition solve :: "solver_factory \<Rightarrow> string \<Rightarrow> workspace \<Rightarrow> workspace" where
  "solve SolverFactory name ws =
    (let result = SolverFactory name (ws_model ws)
     in ws\<lparr>ws_values := (\<lambda>v. if v \<in> set (declared_vars (ws_model ws))
                                then Some (solution result v) else ws_values ws v),
           ws_log := ws_log ws @ [SolverCall name]\<rparr>)"

definition run :: "(workspace \<Rightarrow> workspace) list \<Rightarrow> workspace \<Rightarrow> workspace" where
  "run stmts ws = foldl (\<lambda>w stmt. stmt w) ws stmts"

subsection \<open>Version 1\<close>

definition revenue :: expr where
  "revenue = Add (Mul (Const 270) (Var [K ''y_U''])) (Mul (Const 210) (Var [K ''y_V'']))"

definition expense :: expr where
  "expense = Add (Add (Mul (Const 10) (Var [K ''x_M''])) (Mul (Const 50) (Var [K ''x_A''])))
                 (Mul (Const 40) (Var [K ''x_B'']))"

definition production_planning_v1 :: "solver_factory \<Rightarrow> workspace" where
  "production_planning_v1 SolverFactory = run
    [display,
     declare_component (VarC [K ''x_M''] Reals (Some 0) None (Some 0)),
     declare_component (VarC [K ''x_A''] Reals (Some 0) (Some 80) (Some 0)),
     declare_component (VarC [K ''x_B''] Reals (Some 0) (Some 100) (Some 0)),
     declare_component (VarC [K ''y_U''] Reals (Some 0) (Some 40) (Some 0)),
     declare_component (VarC [K ''y_V''] Reals (Some 0) None (Some 0)),
     display,
     print_expr revenue,
     print_expr expense,
     declare_component (ObjectiveC ''profit'' Maximize (Sub revenue expense)),
     display,
     declare_component (ConstraintC [K ''raw_materials'']
       (LessEq (Add (Mul (Const 10) (Var [K ''y_U''])) (Mul (Const 9) (Var [K ''y_V''])))
               (Var [K ''x_M'']))),
     declare_component (ConstraintC [K ''labor_A'']
       (LessEq (Add (Mul (Const 2) (Var [K ''y_U''])) (Mul (Const 1) (Var [K ''y_V''])))
               (Var [K ''x_A'']))),
     declare_component (ConstraintC [K ''labor_B'']
       (LessEq (Add (Mul (Const 1) (Var [K ''y_U''])) (Mul (Const 1) (Var [K ''y_V''])))
               (Var [K ''x_B'']))),
     display,
     solve SolverFactory ''cbc'',
     display]
    empty_workspace"

subsection \<open>Version 2\<close>

definition product_data :: "real option dict dict" where
  "product_data = [(''U'', [(''price'', Some 270), (''demand'', Some 40)]),
                   (''V'', [(''price'', Some 210), (''demand'', None)])]"

definition resource_data :: "real option dict dict" where
  "resource_data = [(''M'', [(''price'', Some 10), (''available'', None)]),
                    (''labor A'', [(''price'', Some 50), (''available'', Some 100)]),
                    (''labor B'', [(''price'', Some 40), (''available'', Some 80)])]"

definition process_data :: "real dict dict" where
  "process_data = [(''U'', [(''M'', 10), (''labor A'', 2), (''labor B'', 1)]),
                   (''V'', [(''M'', 9), (''labor A'', 1), (''labor B'', 1)])]"

text \<open>
  \<open>data[k][f]\<close> of the two tables with optional entries; a price that is \<open>None\<close> cannot be
  multiplied with a variable.
\<close>

definition field :: "real option dict dict \<Rightarrow> string \<Rightarrow> string \<Rightarrow> real option option" where
  "field data k f = getitem data k \<bind> (\<lambda>row. getitem row f)"

definition production_planning_v2_model :: "component list option" where
  "production_planning_v2_model = do {
     let PRODUCTS = keys product_data;
     let RESOURCES = keys resource_data;
     x \<leftarrow> those (map (\<lambda>r. map_option (\<lambda>ub. VarC [K ''x'', K r] Reals (Some 0) ub None)
                             (field resource_data r ''available'')) RESOURCES);
     y \<leftarrow> those (map (\<lambda>p. map_option (\<lambda>ub. VarC [K ''y'', K p] Reals (Some 0) ub None)
                             (field product_data p ''demand'')) PRODUCTS);
     expense_terms \<leftarrow> those (map (\<lambda>r. field resource_data r ''price'' \<bind>
                             map_option (\<lambda>c. Mul (Const c) (Var [K ''x'', K r]))) RESOURCES);
     revenue_terms \<leftarrow> those (map (\<lambda>p. field product_data p ''price'' \<bind>
                             map_option (\<lambda>c. Mul (Const c) (Var [K ''y'', K p]))) PRODUCTS);
     let profit = ObjectiveC ''profit'' Maximize (Sub (Sum revenue_terms) (Sum expense_terms));
     resource \<leftarrow> those (map (\<lambda>r. do {
         terms \<leftarrow> those (map (\<lambda>p. getitem process_data p \<bind> (\<lambda>row. getitem row r)
                                  \<bind> (\<lambda>c. Some (Mul (Const c) (Var [K ''y'', K p])))) PRODUCTS);
         Some (ConstraintC [K ''resource'', K r] (LessEq (Sum terms) (Var [K ''x'', K r])))
       }) RESOURCES);
     Some ([SetC ''PRODUCTS'' (map K PRODUCTS), SetC ''RESOURCES'' (map K RESOURCES)]
           @ x @ y @ [profit] @ resource)
   }"

definition production_planning_v2 :: "solver_factory \<Rightarrow> workspace option" where
  "production_planning_v2 SolverFactory = do {
     m \<leftarrow> production_planning_v2_model;
     Some (run [solve SolverFactory ''cbc'', display]
             (empty_workspace\<lparr>ws_model := m, ws_values := initial_value m\<rparr>))
   }"


section \<open>Dictionaries as objects\<close>

text \<open>
  Python dictionaries are mutable objects; a variable holds a reference to one.  To speak
  about sharing, the store of the interpreter is made explicit: a value is a number or a
  reference, the heap maps the addresses in use to dictionaries, and a new object gets
  the next free address.
\<close>

datatype pyval = Num real | Ref nat

record heap =
  store :: "nat \<Rightarrow> pyval dict option"
  next_addr :: nat

text \<open>
  A dictionary display \<open>{k1: e1, ...}\<close> whose entries are numbers or dictionary displays.
  Its evaluation evaluates the entries from left to right and then creates a new
  dictionary.
\<close>

datatype literal = LNum real | LDict "(string \<times> literal) list"

fun alloc :: "literal \<Rightarrow> heap \<Rightarrow> pyval \<times> heap"
  and alloc_items :: "(string \<times> literal) list \<Rightarrow> heap \<Rightarrow> pyval dict \<times> heap" where
  "alloc (LNum r) h = (Num r, h)"
| "alloc (LDict kvs) h =
    (let (d, h') = alloc_items kvs h; a = next_addr h'
     in (Ref a, h'\<lparr>store := (store h')(a \<mapsto> d), next_addr := a + 1\<rparr>))"
| "alloc_items [] h = ([], h)"
| "alloc_items ((k, l) # kvs) h =
    (let (v, h1) = alloc l h; (d, h2) = alloc_items kvs h1
     in ((k, v) # d, h2))"

text \<open>
  \<open>repr_in lo hi h v l\<close>: in the heap \<open>h\<close> the value \<open>v\<close> is the nested dictionary \<open>l\<close>, and
  every object it consists of lies at an address from \<open>lo\<close> up to, not including, \<open>hi\<close>.
\<close>

inductive repr_in :: "nat \<Rightarrow> nat \<Rightarrow> heap \<Rightarrow> pyval \<Rightarrow> literal \<Rightarrow> bool" where
  repr_num: "repr_in lo hi h (Num r) (LNum r)"
| repr_dict: "lo \<le> a \<Longrightarrow> a < hi \<Longrightarrow> store h a = Some d \<Longrightarrow> map fst d = map fst kvs \<Longrightarrow>
     (\<forall>i<length d. repr_in lo hi h (snd (d ! i)) (snd (kvs ! i))) \<Longrightarrow>
     repr_in lo hi h (Ref a) (LDict kvs)"

text \<open>
  A well-formed heap uses no address from its next free address on.  A heap extends
  another one when it keeps all its objects as they are.
\<close>

definition wf_heap :: "heap \<Rightarrow> bool" where
  "wf_heap h = (\<forall>a\<ge>next_addr h. store h a = None)"

definition extends :: "heap \<Rightarrow> heap \<Rightarrow> bool" where
  "extends h h' = (next_addr h \<le> next_addr h' \<and> (\<forall>a<next_addr h. store h' a = store h a))"

text \<open>
  The functions return a tuple of dictionaries, evaluated from left to right.
\<close>

fun alloc_all :: "literal list \<Rightarrow> heap \<Rightarrow> pyval list \<times> heap" where
  "alloc_all [] h = ([], h)"
| "alloc_all (l # ls) h =
    (let (v, h1) = alloc l h; (vs, h2) = alloc_all ls h1
     in (v # vs, h2))"

text \<open>
  \<open>model_params\<close> and \<open>subproblem_params\<close> on the heap: the displays in their bodies are
  those of the dictionaries that the functions above compute.  \<open>subproblem_params\<close> reads
  the numbers \<open>dec["y1"]\<close>, \<open>dec["y2"]\<close>, \<open>dec["y3"]\<close> through the reference \<open>dec\<close>; an
  argument that is not a dictionary, a missing key or an entry that is not a number
  raises.
\<close>

definition lit_of_dict :: "real dict \<Rightarrow> literal" where
  "lit_of_dict d = LDict (map (\<lambda>(k, r). (k, LNum r)) d)"

definition lit_of_dict2 :: "real dict dict \<Rightarrow> literal" where
  "lit_of_dict2 dd = LDict (map (\<lambda>(k, d). (k, lit_of_dict d)) dd)"

definition model_params_heap :: "real \<Rightarrow> real \<Rightarrow> real \<Rightarrow> heap \<Rightarrow> pyval list \<times> heap" where
  "model_params_heap z_A z_B z_D h =
    (case model_params z_A z_B z_D of
       (c, q, R, S, t) \<Rightarrow>
         alloc_all [lit_of_dict c, lit_of_dict q, lit_of_dict2 R, lit_of_dict2 S, lit_of_dict t] h)"

definition numeric_items :: "pyval dict \<Rightarrow> real dict" where
  "numeric_items d = List.map_filter (\<lambda>(k, v). case v of Num r \<Rightarrow> Some (k, r) | Ref a \<Rightarrow> None) d"

definition subproblem_params_heap :: "pyval \<Rightarrow> heap \<Rightarrow> (pyval list \<times> heap) option" where
  "subproblem_params_heap dec h =
    (case dec of
       Num r \<Rightarrow> None
     | Ref a \<Rightarrow> do {
         d \<leftarrow> store h a;
         (L, R) \<leftarrow> subproblem_params (numeric_items d);
         Some (alloc_all [lit_of_dict2 L, lit_of_dict R] h)
       })"

text \<open>
  Two heaps that hold the same solution dictionary at different addresses.
\<close>

definition solution_dict :: "pyval dict" where
  "solution_dict = [(''x'', Num 0), (''y1'', Num 1), (''y2'', Num 2), (''y3'', Num 3)]"

definition heap_a :: heap where
  "heap_a = \<lparr>store = (\<lambda>a. None)(0 \<mapsto> solution_dict), next_addr = 1\<rparr>"

definition heap_b :: heap where
  "heap_b = \<lparr>store = (\<lambda>a. None)(0 \<mapsto> [], 1 \<mapsto> solution_dict), next_addr = 2\<rparr>"

text \<open>
  The expected contents of the returned tuples, as literals: what \<open>model_params\<close> and
  \<open>subproblem_params\<close> return as values, read as the nested dictionaries that the heap
  versions must build.  \<open>fresh_dicts\<close> says that every returned value is a reference to an
  object that did not exist in the heap before the call and exists after it.
\<close>

definition params_literals :: "params \<Rightarrow> literal list" where
  "params_literals p =
     (case p of (c, q, R, S, t) \<Rightarrow>
        [lit_of_dict c, lit_of_dict q, lit_of_dict2 R, lit_of_dict2 S, lit_of_dict t])"

definition subparams_literals :: "subparams \<Rightarrow> literal list" where
  "subparams_literals p = (case p of (L, R) \<Rightarrow> [lit_of_dict2 L, lit_of_dict R])"

definition fresh_dicts :: "heap \<Rightarrow> heap \<Rightarrow> pyval list \<Rightarrow> bool" where
  "fresh_dicts h h' vs =
     list_all (\<lambda>v. case v of
                  Num r \<Rightarrow> False
                | Ref a \<Rightarrow> next_addr h \<le> a \<and> a < next_addr h' \<and> store h a = None \<and> store h' a \<noteq> None) vs"

fun is_dict_literal :: "literal \<Rightarrow> bool" where
  "is_dict_literal (LDict kvs) = True"
| "is_dict_literal (LNum r) = False"

section \<open>Notions used to state the properties\<close>

subsection \<open>Notions used to state the properties of the driver\<close>

text \<open>
  The scenario list the driver works on is never empty and every scenario is a
  dictionary with exactly the keys \<open>z_A\<close>, \<open>z_B\<close>, \<open>z_D\<close>, in this order.
\<close>

definition wf_scenarios :: "real dict list \<Rightarrow> bool" where
  "wf_scenarios Zs = (Zs \<noteq> [] \<and> list_all (\<lambda>z. keys z = [''z_A'', ''z_B'', ''z_D'']) Zs)"

text \<open>
  The states of the script at each evaluation of the loop test, first to last: the same
  recursion as \<open>ccg_loop\<close>, collecting the states it passes through.
\<close>

function ccg_states :: "solver_factory \<Rightarrow> ccg_state \<Rightarrow> ccg_state list" where
  "ccg_states SolverFactory st =
    st # (if \<not> ccg_converged st \<and> ccg_iterations st < max_iterations
          then (case ccg_body SolverFactory st of
                  None \<Rightarrow> []
                | Some st' \<Rightarrow> ccg_states SolverFactory st')
          else [])"
  by pat_completeness auto
termination
  by (relation "measure (\<lambda>(sf, st). max_iterations - ccg_iterations st)")
     (auto dest: ccg_body_iterations)

declare ccg_states.simps [simp del]

text \<open>A \<open>master_solution\<close> list: never empty, every entry with the keys \<open>x, y1, y2, y3\<close>.\<close>

definition wf_solutions :: "real dict list \<Rightarrow> bool" where
  "wf_solutions ms = (ms \<noteq> [] \<and> list_all (\<lambda>d. keys d = [''x'', ''y1'', ''y2'', ''y3'']) ms)"

text \<open>\<open>c, q, *_ = model_params()\<close>, the nominal cost vectors whose keys name the variables.\<close>

definition nominal_c :: "real dict" where
  "nominal_c = fst (model_params 0 0 0)"

definition nominal_q :: "real dict" where
  "nominal_q = fst (snd (model_params 0 0 0))"

text \<open>The invariant of the loop, at each evaluation of the loop test.\<close>

definition ccg_inv :: "ccg_state \<Rightarrow> bool" where
  "ccg_inv st =
    (wf_scenarios (Z st) \<and> length (Z st) \<le> ccg_iterations st + 1
     \<and> ccg_iterations st \<le> max_iterations
     \<and> (if ccg_converged st then \<exists>theta. theta_opt st = Some theta \<and> theta < stopping_precision
         else ccg_iterations st = 0 \<or> (\<exists>theta. theta_opt st = Some theta \<and> stopping_precision \<le> theta)))"

text \<open>
  A concrete solver for concrete runs: it assigns the same number to every variable of
  every model, whatever the model.  With \<open>1\<close> the pessimization always
  reports the violation \<open>1\<close>; \<open>stubborn_state n\<close> is the state of the script after
  \<open>n\<close> such iterations.
\<close>

definition constant_solver :: "real \<Rightarrow> solver_factory" where
  "constant_solver r name m = \<lparr>status = ''ok'', termination_condition = ''optimal'', solution = (\<lambda>v. r)\<rparr>"

definition stubborn_state :: "nat \<Rightarrow> ccg_state" where
  "stubborn_state n = \<lparr>ccg_converged = False, ccg_iterations = n,
      Z = [(''z_A'', 0), (''z_B'', 0), (''z_D'', 0)] # replicate n [(''z_A'', 1), (''z_B'', 1), (''z_D'', 1)],
      theta_opt = (if n = 0 then None else Some 1)\<rparr>"

subsection \<open>Notions used to state the properties of the sampler\<close>

text \<open>A draw of \<open>np.random.uniform(-1, 1)\<close> lies in the half-open interval from \<open>-1\<close> to \<open>1\<close>.\<close>

definition uniform_draw :: "real \<Rightarrow> bool" where
  "uniform_draw u = (-1 \<le> u \<and> u < 1)"

subsection \<open>A concrete pessimization problem\<close>

text \<open>
  The master solution with one scenario and all values \<open>0\<close>, and an assignment for the
  pessimization model built from it: every variable is \<open>0\<close> but the two binaries of
  the labor rows of scenario \<open>0\<close>.
\<close>

definition example_solution :: "real dict list" where
  "example_solution = [[(''x'', 0), (''y1'', 0), (''y2'', 0), (''y3'', 0)]]"

definition example_assignment :: "vref \<Rightarrow> real" where
  "example_assignment v = (if v = u_var 0 ''labor A'' \<or> v = u_var 0 ''labor B'' then 1 else 0)"

subsection \<open>A concrete portfolio\<close>

text \<open>A concrete portfolio: one third of the capital in each asset.\<close>

definition third_each :: "vref \<Rightarrow> real" where
  "third_each v = 1 / 3"

subsection \<open>Notions used to state the properties of the production planning script\<close>

text \<open>The parts of the Version 1 model, and the names of its variables.\<close>

definition v1_variables :: "component list" where
  "v1_variables =
    [VarC [K ''x_M''] Reals (Some 0) None (Some 0),
     VarC [K ''x_A''] Reals (Some 0) (Some 80) (Some 0),
     VarC [K ''x_B''] Reals (Some 0) (Some 100) (Some 0),
     VarC [K ''y_U''] Reals (Some 0) (Some 40) (Some 0),
     VarC [K ''y_V''] Reals (Some 0) None (Some 0)]"

definition v1_objective :: component where
  "v1_objective = ObjectiveC ''profit'' Maximize (Sub revenue expense)"

definition v1_constraints :: "component list" where
  "v1_constraints =
    [ConstraintC [K ''raw_materials'']
       (LessEq (Add (Mul (Const 10) (Var [K ''y_U''])) (Mul (Const 9) (Var [K ''y_V''])))
               (Var [K ''x_M''])),
     ConstraintC [K ''labor_A'']
       (LessEq (Add (Mul (Const 2) (Var [K ''y_U''])) (Mul (Const 1) (Var [K ''y_V''])))
               (Var [K ''x_A''])),
     ConstraintC [K ''labor_B'']
       (LessEq (Add (Mul (Const 1) (Var [K ''y_U''])) (Mul (Const 1) (Var [K ''y_V''])))
               (Var [K ''x_B'']))]"

definition v1_names :: "vref list" where
  "v1_names = [[K ''x_M''], [K ''x_A''], [K ''x_B''], [K ''y_U''], [K ''y_V'']]"

subsection \<open>The shape of a model\<close>












subsection \<open>Notions used to state that the solver status is not used\<close>

text \<open>The events that show the status or the termination condition of a solver.\<close>

fun status_line :: "event \<Rightarrow> bool" where
  "status_line (SolverStatus s t) = True"
| "status_line e = False"

text \<open>
  A solver that assigns the same number to every variable, like \<open>constant_solver\<close>, but
  reports a warning and an infeasible model.
\<close>

definition failing_solver :: "real \<Rightarrow> solver_factory" where
  "failing_solver r name m =
     \<lparr>status = ''warning'', termination_condition = ''infeasible'', solution = (\<lambda>v. r)\<rparr>"

section \<open>Properties of the column and constraint generation driver\<close>

subsection \<open>The driver's own code raises no exception on its own scenario lists\<close>

lemma those_map_Some:
  "(\<And>x. x \<in> set xs \<Longrightarrow> f x = Some (g x)) \<Longrightarrow> those (map f xs) = Some (map g xs)"
  by (induction xs) auto

lemma those_map_ex:
  "(\<And>x. x \<in> set xs \<Longrightarrow> \<exists>y. f x = Some y) \<Longrightarrow> \<exists>ys. those (map f xs) = Some ys"
proof (induction xs)
  case Nil
  show ?case by simp
next
  case (Cons a xs)
  then obtain y ys where "f a = Some y" "those (map f xs) = Some ys"
    by (meson list.set_intros)
  then show ?case by simp
qed

lemma model_params_kw_empty: "model_params_kw [] = Some (model_params 0 0 0)"
  by (simp add: model_params_kw_def keys_def kwarg_def)

lemma model_params_kw_scenario:
  "keys z = [''z_A'', ''z_B'', ''z_D''] \<Longrightarrow>
   model_params_kw z = Some (model_params (kwarg z ''z_A'') (kwarg z ''z_B'') (kwarg z ''z_D''))"
  by (simp add: model_params_kw_def)

lemma master_scenario_Some:
  assumes "s < length Zs" "keys (Zs ! s) = [''z_A'', ''z_B'', ''z_D'']"
  shows "\<exists>b. master_scenario model_params_kw Zs [''x''] [''y1'', ''y2'', ''y3''] s = Some b"
  using assms
  by (simp add: master_scenario_def index_def model_params_kw_scenario model_params_def
      weighted_sum_def getitem_def keys_def)

lemma max_min_profit_model_Some:
  assumes "wf_scenarios Zs"
  shows "\<exists>comps. max_min_profit_model model_params_kw Zs = Some comps"
proof -
  have "\<exists>bs. those (map (master_scenario model_params_kw Zs [''x''] [''y1'', ''y2'', ''y3'']) [0..<length Zs]) = Some bs"
    using assms
    by (intro those_map_ex master_scenario_Some) (auto simp: wf_scenarios_def list_all_length)
  then obtain bs where bs: "those (map (master_scenario model_params_kw Zs [''x''] [''y1'', ''y2'', ''y3'']) [0..<length Zs]) = Some bs" ..
  show ?thesis
    by (simp add: max_min_profit_model_def model_params_kw_empty model_params_def keys_def bs
        weighted_sum_def getitem_def)
qed

lemma max_min_profit_Some:
  assumes "wf_scenarios Zs"
  shows "\<exists>comps. max_min_profit SolverFactory model_params_kw Zs =
           Some \<lparr>components = comps, val = solution (SolverFactory ''cbc'' comps)\<rparr>"
  using max_min_profit_model_Some [OF assms] by (auto simp: max_min_profit_def)

lemma single_solution_nominal:
  "single_solution m (fst (model_params 0 0 0)) (fst (snd (model_params 0 0 0))) s =
     [(''x'', val m (x_var ''x'')), (''y1'', val m (y_var s ''y1'')),
      (''y2'', val m (y_var s ''y2'')), (''y3'', val m (y_var s ''y3''))]"
  by (simp add: single_solution_def model_params_def keys_def)

lemma subproblem_params_Some:
  "keys d = [''x'', ''y1'', ''y2'', ''y3''] \<Longrightarrow> \<exists>L R. subproblem_params d = Some (L, R) \<and> keys L = [''demand'', ''profit'', ''labor A'', ''labor B''] \<and> keys R = keys L
   \<and> list_all (\<lambda>(k, Lk). keys Lk = [''z_A'', ''z_B'', ''z_D'']) L"
  apply (cases d; simp add: keys_def)
  apply (auto simp: subproblem_params_def getitem_def keys_def Let_def)
  done

lemma keys4:
  "keys d = [k1, k2, k3, k4] \<Longrightarrow> \<exists>v1 v2 v3 v4. d = [(k1, v1), (k2, v2), (k3, v3), (k4, v4)]"
  by (auto simp: keys_def map_eq_Cons_conv)

lemma pessimization_scenario_Some:
  assumes "s < length ms" "keys (ms ! s) = [''x'', ''y1'', ''y2'', ''y3'']"
  shows "\<exists>b. pessimization_scenario subproblem_params ms [''z_A'', ''z_B'', ''z_D''] s = Some b"
proof -
  obtain v1 v2 v3 v4 where d: "ms ! s = [(''x'', v1), (''y1'', v2), (''y2'', v3), (''y3'', v4)]"
    using keys4 [OF assms(2)] by blast
  show ?thesis
    using assms(1)
    by (simp add: pessimization_scenario_def index_def d subproblem_params_def getitem_def
        keys_def weighted_sum_def)
qed

lemma pessimization_model_Some:
  assumes "wf_solutions ms" "a \<noteq> 0" "b \<noteq> 0" "d \<noteq> 0"
  shows "\<exists>comps. pessimization_model subproblem_params ms a b d G = Some comps"
proof -
  have "\<exists>bs. those (map (pessimization_scenario subproblem_params ms [''z_A'', ''z_B'', ''z_D'']) [0..<length ms]) = Some bs"
    using assms(1)
    by (intro those_map_ex pessimization_scenario_Some) (auto simp: wf_solutions_def list_all_length)
  then obtain bs where bs: "those (map (pessimization_scenario subproblem_params ms [''z_A'', ''z_B'', ''z_D'']) [0..<length ms]) = Some bs" ..
  from assms(1) have "0 < length ms" "keys (ms ! 0) = [''x'', ''y1'', ''y2'', ''y3'']"
    by (auto simp: wf_solutions_def list_all_length)
  then obtain v1 v2 v3 v4 where d0: "index ms 0 = Some [(''x'', v1), (''y1'', v2), (''y2'', v3), (''y3'', v4)]"
    using keys4 by (fastforce simp: index_def)
  show ?thesis
    using assms(2-4)
    by (simp add: pessimization_model_def d0 subproblem_params_def getitem_def bs)
qed

lemma pessimization_problem_Some:
  assumes "wf_solutions ms" "a \<noteq> 0" "b \<noteq> 0" "d \<noteq> 0"
  shows "\<exists>comps. pessimization_model subproblem_params ms a b d G = Some comps \<and>
           pessimization_problem SolverFactory subproblem_params ms a b d G =
           (let v = solution (SolverFactory ''gurobi'' comps)
            in Some (v theta_var, v (z_var ''z_A''), v (z_var ''z_B''), v (z_var ''z_D'')))"
  using pessimization_model_Some [OF assms, of G] by (auto simp: pessimization_problem_def)

lemma wf_export_solution:
  "0 < n \<Longrightarrow> wf_solutions (export_solution m (fst (model_params 0 0 0)) (fst (snd (model_params 0 0 0))) n)"
  by (simp add: wf_solutions_def export_solution_def list_all_iff single_solution_nominal keys_def)

lemma ccg_body_char:
  assumes "wf_scenarios (Z st)"
  shows "\<exists>mc pc. 
      max_min_profit SolverFactory model_params_kw (Z st) =
        Some \<lparr>components = mc, val = solution (SolverFactory ''cbc'' mc)\<rparr>
    \<and> pessimization_model subproblem_params
          (export_solution \<lparr>components = mc, val = solution (SolverFactory ''cbc'' mc)\<rparr>
             nominal_c nominal_q (length (Z st))) 0.15 0.25 0.25 2 = Some pc
    \<and> ccg_body SolverFactory st =
        (let v = solution (SolverFactory ''gurobi'' pc); theta = v theta_var
         in Some (if theta < stopping_precision
              then st\<lparr>ccg_converged := True, ccg_iterations := ccg_iterations st + 1,
                      theta_opt := Some theta\<rparr>
              else st\<lparr>Z := Z st @ [[(''z_A'', v (z_var ''z_A'')), (''z_B'', v (z_var ''z_B'')),
                                      (''z_D'', v (z_var ''z_D''))]],
                      ccg_iterations := ccg_iterations st + 1, theta_opt := Some theta\<rparr>))"
proof -
  obtain mc where m: "max_min_profit SolverFactory model_params_kw (Z st) =
      Some \<lparr>components = mc, val = solution (SolverFactory ''cbc'' mc)\<rparr>"
    using max_min_profit_Some [OF assms] by blast
  define m where "m = \<lparr>components = mc, val = solution (SolverFactory ''cbc'' mc)\<rparr>"
  define ms where "ms = export_solution m nominal_c nominal_q (length (Z st))"
  have n: "0 < length (Z st)" using assms by (simp add: wf_scenarios_def)
  have wf: "wf_solutions ms"
    unfolding ms_def nominal_c_def nominal_q_def using n by (rule wf_export_solution)
  obtain pc where pm: "pessimization_model subproblem_params ms 0.15 0.25 0.25 2 = Some pc"
    and p: "pessimization_problem SolverFactory subproblem_params ms 0.15 0.25 0.25 2 =
      (let v = solution (SolverFactory ''gurobi'' pc)
       in Some (v theta_var, v (z_var ''z_A''), v (z_var ''z_B''), v (z_var ''z_D'')))"
    using pessimization_problem_Some [where a = "0.15" and b = "0.25" and d = "0.25" and G = 2, OF wf] by auto
  have i0: "index ms 0 = Some (single_solution m nominal_c nominal_q 0)"
    using n by (simp add: index_def ms_def export_solution_def del: upt_Suc)
  have x0: "getitem (single_solution m nominal_c nominal_q 0) ''x'' = Some (val m (x_var ''x''))"
    by (simp add: nominal_c_def nominal_q_def single_solution_nominal getitem_def)
  have mp: "model_params_kw [] = Some (nominal_c, nominal_q, snd (snd (model_params 0 0 0)))"
    by (simp add: model_params_kw_empty nominal_c_def nominal_q_def)
  have "ccg_body SolverFactory st =
        (let v = solution (SolverFactory ''gurobi'' pc); theta = v theta_var
         in Some (if theta < stopping_precision
              then st\<lparr>ccg_converged := True, ccg_iterations := ccg_iterations st + 1,
                      theta_opt := Some theta\<rparr>
              else st\<lparr>Z := Z st @ [[(''z_A'', v (z_var ''z_A'')), (''z_B'', v (z_var ''z_B'')),
                                      (''z_D'', v (z_var ''z_D''))]],
                      ccg_iterations := ccg_iterations st + 1, theta_opt := Some theta\<rparr>))"
    using p by (simp add: ccg_body_def m mp i0 x0 Let_def flip: m_def ms_def)
  with m pm show ?thesis unfolding ms_def m_def by blast
qed

subsection \<open>The loop invariant\<close>

lemma ccg_inv_init: "ccg_inv ccg_init"
  by (simp add: ccg_inv_def ccg_init_def wf_scenarios_def keys_def)

lemma ccg_body_inv:
  assumes "ccg_inv st" "\<not> ccg_converged st" "ccg_iterations st < max_iterations"
  shows "\<exists>st'. ccg_body SolverFactory st = Some st' \<and> ccg_inv st'"
proof -
  from assms(1) have wf: "wf_scenarios (Z st)" by (simp add: ccg_inv_def)
  from ccg_body_char [OF wf, of SolverFactory] obtain pc where
    b: "ccg_body SolverFactory st =
        (let v = solution (SolverFactory ''gurobi'' pc); theta = v theta_var
         in Some (if theta < stopping_precision
              then st\<lparr>ccg_converged := True, ccg_iterations := ccg_iterations st + 1,
                      theta_opt := Some theta\<rparr>
              else st\<lparr>Z := Z st @ [[(''z_A'', v (z_var ''z_A'')), (''z_B'', v (z_var ''z_B'')),
                                      (''z_D'', v (z_var ''z_D''))]],
                      ccg_iterations := ccg_iterations st + 1, theta_opt := Some theta\<rparr>))"
    by blast
  show ?thesis
    using assms by (auto simp: b Let_def ccg_inv_def wf_scenarios_def keys_def)
qed

lemma ccg_loop_inv:
  "ccg_inv st \<Longrightarrow>
   \<exists>st'. ccg_loop SolverFactory st = Some st' \<and> ccg_inv st'
      \<and> (ccg_converged st' \<or> ccg_iterations st' = max_iterations)"
proof (induction SolverFactory st rule: ccg_loop.induct)
  case (1 SolverFactory st)
  show ?case
  proof (cases "\<not> ccg_converged st \<and> ccg_iterations st < max_iterations")
    case True
    then obtain st' where b: "ccg_body SolverFactory st = Some st'" "ccg_inv st'"
      using ccg_body_inv [OF "1.prems"] by blast
    from "1.IH" [OF True b] show ?thesis
      using True b(1) by (subst ccg_loop.simps) simp
  next
    case False
    with "1.prems" show ?thesis
      by (subst ccg_loop.simps) (auto simp: ccg_inv_def)
  qed
qed

lemma ccg_states_inv:
  "ccg_inv st \<Longrightarrow>
   list_all ccg_inv (ccg_states SolverFactory st)
   \<and> length (ccg_states SolverFactory st) \<le> max_iterations - ccg_iterations st + 1
   \<and> ccg_loop SolverFactory st = Some (last (ccg_states SolverFactory st))
   \<and> map ccg_iterations (ccg_states SolverFactory st)
       = [ccg_iterations st ..< ccg_iterations st + length (ccg_states SolverFactory st)]"
proof (induction SolverFactory st rule: ccg_states.induct)
  case (1 SolverFactory st)
  show ?case
  proof (cases "\<not> ccg_converged st \<and> ccg_iterations st < max_iterations")
    case True
    then obtain st' where b: "ccg_body SolverFactory st = Some st'" "ccg_inv st'"
      using ccg_body_inv [OF "1.prems"] by blast
    have i: "ccg_iterations st' = ccg_iterations st + 1"
      using b(1) by (rule ccg_body_iterations)
    have ne: "ccg_states SolverFactory st' \<noteq> []"
      by (subst ccg_states.simps) simp
    have eq: "ccg_states SolverFactory st = st # ccg_states SolverFactory st'"
      using True b(1) by (subst ccg_states.simps) simp
    have leq: "ccg_loop SolverFactory st = ccg_loop SolverFactory st'"
      using True b(1) by (subst ccg_loop.simps) simp
    note IH = "1.IH" [OF True b]
    from IH have h1: "list_all ccg_inv (ccg_states SolverFactory st')"
      and h2: "length (ccg_states SolverFactory st') \<le> max_iterations - ccg_iterations st' + 1"
      and h3: "ccg_loop SolverFactory st' = Some (last (ccg_states SolverFactory st'))"
      and h4: "map ccg_iterations (ccg_states SolverFactory st')
         = [ccg_iterations st' ..< ccg_iterations st' + length (ccg_states SolverFactory st')]"
      by blast+
    have c1: "list_all ccg_inv (ccg_states SolverFactory st)"
      using h1 "1.prems" by (simp add: eq)
    have c2: "length (ccg_states SolverFactory st) \<le> max_iterations - ccg_iterations st + 1"
      using h2 True i unfolding eq by (simp, arith)
    have c3: "ccg_loop SolverFactory st = Some (last (ccg_states SolverFactory st))"
      using h3 ne by (simp add: eq leq)
    have c4: "map ccg_iterations (ccg_states SolverFactory st)
       = [ccg_iterations st ..< ccg_iterations st + length (ccg_states SolverFactory st)]"
      using h4 i by (simp add: eq upt_conv_Cons del: upt_Suc)
    from c1 c2 c3 c4 show ?thesis by blast
  next
    case False
    have eq: "ccg_states SolverFactory st = [st]"
      using False by (subst ccg_states.simps) auto
    have leq: "ccg_loop SolverFactory st = Some st"
      using False by (subst ccg_loop.simps) auto
    show ?thesis
      using "1.prems" by (simp add: eq leq)
  qed
qed

subsection \<open>A run in which every pessimization reports a violation\<close>

lemma stubborn_body:
  "ccg_body (constant_solver 1) (stubborn_state n) = Some (stubborn_state (Suc n))"
proof -
  have wf: "wf_scenarios (Z (stubborn_state n))"
    by (simp add: wf_scenarios_def stubborn_state_def keys_def list_all_iff)
  from ccg_body_char [OF wf, of "constant_solver 1"] show ?thesis
    by (auto simp: constant_solver_def stopping_precision_def stubborn_state_def replicate_append_same)
qed

lemma stubborn_loop:
  "n \<le> 50 \<Longrightarrow> ccg_loop (constant_solver 1) (stubborn_state (50 - n)) = Some (stubborn_state 50)"
proof (induction n)
  case 0
  show ?case
    by (subst ccg_loop.simps) (simp add: stubborn_state_def max_iterations_def)
next
  case (Suc n)
  then have "Suc (50 - Suc n) = 50 - n" by arith
  with Suc show ?case
    by (subst ccg_loop.simps) (simp add: stubborn_body, simp add: stubborn_state_def max_iterations_def)
qed

lemma stubborn_init: "stubborn_state 0 = ccg_init"
  by (simp add: stubborn_state_def ccg_init_def)

lemma stubborn_states:
  "n \<le> 50 \<Longrightarrow> length (ccg_states (constant_solver 1) (stubborn_state (50 - n))) = Suc n"
proof (induction n)
  case 0
  show ?case
    by (subst ccg_states.simps) (simp add: stubborn_state_def max_iterations_def)
next
  case (Suc n)
  then have "Suc (50 - Suc n) = 50 - n" by arith
  with Suc show ?case
    by (subst ccg_states.simps) (simp add: stubborn_body, simp add: stubborn_state_def max_iterations_def)
qed

section \<open>Properties of the sampler\<close>

lemma z_sample_accept:
  "u1 + u2 + u3 \<le> 2 \<Longrightarrow>
   z_sample (u1 # u2 # u3 # us) = Some [(''z_A'', 0.15 * u1), (''z_B'', 0.25 * u2), (''z_D'', 0.25 * u3)]"
  by (simp add: getitem_def)

lemma z_sample_reject:
  "\<not> u1 + u2 + u3 \<le> 2 \<Longrightarrow> z_sample (u1 # u2 # u3 # us) = z_sample us"
  by (simp add: getitem_def)

lemma z_sample_sound:
  "list_all uniform_draw us \<Longrightarrow> z_sample us = Some s \<Longrightarrow>
   \<exists>z_A z_B z_D. s = [(''z_A'', z_A), (''z_B'', z_B), (''z_D'', z_D)]
     \<and> \<bar>z_A\<bar> \<le> 0.15 \<and> \<bar>z_B\<bar> \<le> 0.25 \<and> \<bar>z_D\<bar> \<le> 0.25
     \<and> z_A / 0.15 + z_B / 0.25 + z_D / 0.25 \<le> 2"
proof (induction us rule: z_sample.induct)
  case (1 u1 u2 u3 us)
  show ?case
  proof (cases "u1 + u2 + u3 \<le> 2")
    case True
    have "z_sample (u1 # u2 # u3 # us) =
        Some [(''z_A'', 0.15 * u1), (''z_B'', 0.25 * u2), (''z_D'', 0.25 * u3)]"
      using True by (rule z_sample_accept)
    with "1.prems"(2) have s: "s = [(''z_A'', 0.15 * u1), (''z_B'', 0.25 * u2), (''z_D'', 0.25 * u3)]"
      by simp
    from "1.prems"(1) have "- 1 \<le> u1" "u1 < 1" "- 1 \<le> u2" "u2 < 1" "- 1 \<le> u3" "u3 < 1"
      by (simp_all add: uniform_draw_def)
    then have b: "\<bar>0.15 * u1\<bar> \<le> 0.15" "\<bar>0.25 * u2\<bar> \<le> 0.25" "\<bar>0.25 * u3\<bar> \<le> 0.25"
      by (simp_all add: abs_le_iff)
    have "0.15 * u1 / 0.15 + 0.25 * u2 / 0.25 + 0.25 * u3 / 0.25 \<le> 2"
      using True by simp
    with b show ?thesis
      unfolding s by blast
  next
    case False
    have "z_sample (u1 # u2 # u3 # us) = z_sample us"
      using False by (rule z_sample_reject)
    with "1.prems" have p: "z_sample us = Some s" "list_all uniform_draw us"
      by simp_all
    have g: "getitem [(''z_A'', 0.15 * u1), (''z_B'', 0.25 * u2), (''z_D'', 0.25 * u3)] ''z_A'' = Some (0.15 * u1)"
      "getitem [(''z_A'', 0.15 * u1), (''z_B'', 0.25 * u2), (''z_D'', 0.25 * u3)] ''z_B'' = Some (0.25 * u2)"
      "getitem [(''z_A'', 0.15 * u1), (''z_B'', 0.25 * u2), (''z_D'', 0.25 * u3)] ''z_D'' = Some (0.25 * u3)"
      by (simp_all add: getitem_def)
    have n: "\<not> 0.15 * u1 / 0.15 + 0.25 * u2 / 0.25 + 0.25 * u3 / 0.25 \<le> 2"
      using False by simp
    show ?thesis
      by (rule "1.IH" [OF refl refl g(1) refl g(2) g(3) n p(2) p(1)])
  qed
qed simp_all

section \<open>The shape of the pessimization model\<close>

lemma those_map_nth:
  "those (map f xs) = Some ys \<Longrightarrow>
   length ys = length xs \<and> (\<forall>i<length xs. f (xs ! i) = Some (ys ! i))"
proof (induction xs arbitrary: ys)
  case Nil
  then show ?case by simp
next
  case (Cons x xs)
  from Cons.prems obtain y ys' where y: "f x = Some y" "those (map f xs) = Some ys'" "ys = y # ys'"
    by (auto split: option.splits)
  from Cons.IH [OF y(2)] y show ?case
    by (auto simp: nth_Cons split: nat.splits)
qed

lemma subproblem_params_SomeD:
  assumes "subproblem_params dec = Some (L, R)"
  shows "\<exists>y1 y2 y3. getitem dec ''y1'' = Some y1 \<and> getitem dec ''y2'' = Some y2 \<and> getitem dec ''y3'' = Some y3
     \<and> L = [(''demand'', [(''z_A'', 0), (''z_B'', 0), (''z_D'', 20)]),
            (''profit'', [(''z_A'', 50 * y1 + 50 * y2), (''z_B'', 80 * y1 + 40 * y2), (''z_D'', 0)]),
            (''labor A'', [(''z_A'', y1 + y2), (''z_B'', 0), (''z_D'', 0)]),
            (''labor B'', [(''z_A'', 0), (''z_B'', 2 * y1 + y2), (''z_D'', 0)])]
     \<and> R = [(''demand'', y1 - 20),
            (''profit'', 140 * y1 + 120 * y2 - y3),
            (''labor A'', 80 - y1 - y2),
            (''labor B'', 100 - 2 * y1 - y2)]"
  using assms by (auto simp: subproblem_params_def bind_eq_Some_conv Let_def)

lemma pessimization_scenario_sat:
  assumes "pessimization_scenario subproblem_params ms [''z_A'', ''z_B'', ''z_D''] s = Some blk"
    and "satisfies a blk"
  shows "\<exists>y1 y2 y3. s < length ms
     \<and> getitem (ms ! s) ''y1'' = Some y1 \<and> getitem (ms ! s) ''y2'' = Some y2
     \<and> getitem (ms ! s) ''y3'' = Some y3
     \<and> (a (u_var s ''demand'') = 0 \<or> a (u_var s ''demand'') = 1)
     \<and> (a (u_var s ''labor A'') = 0 \<or> a (u_var s ''labor A'') = 1)
     \<and> (a (u_var s ''labor B'') = 0 \<or> a (u_var s ''labor B'') = 1)
     \<and> a (u_var s ''demand'') + a (u_var s ''labor A'') + a (u_var s ''labor B'') \<le> 2
     \<and> 20 * a (z_var ''z_D'') - a theta_var \<ge> (y1 - 20) - a (u_var s ''demand'') * big_M
     \<and> (y1 + y2) * a (z_var ''z_A'') - a theta_var \<ge> (80 - y1 - y2) - a (u_var s ''labor A'') * big_M
     \<and> (2 * y1 + y2) * a (z_var ''z_B'') - a theta_var \<ge> (100 - 2 * y1 - y2) - a (u_var s ''labor B'') * big_M"
proof -
  from assms(1) obtain L R where s: "s < length ms" and sp: "subproblem_params (ms ! s) = Some (L, R)"
    by (auto simp: pessimization_scenario_def index_def bind_eq_Some_conv split: if_splits)
  from subproblem_params_SomeD [OF sp] obtain y1 y2 y3 where
    g: "getitem (ms ! s) ''y1'' = Some y1" "getitem (ms ! s) ''y2'' = Some y2" "getitem (ms ! s) ''y3'' = Some y3"
    and L: "L = [(''demand'', [(''z_A'', 0), (''z_B'', 0), (''z_D'', 20)]),
            (''profit'', [(''z_A'', 50 * y1 + 50 * y2), (''z_B'', 80 * y1 + 40 * y2), (''z_D'', 0)]),
            (''labor A'', [(''z_A'', y1 + y2), (''z_B'', 0), (''z_D'', 0)]),
            (''labor B'', [(''z_A'', 0), (''z_B'', 2 * y1 + y2), (''z_D'', 0)])]"
    and R: "R = [(''demand'', y1 - 20),
            (''profit'', 140 * y1 + 120 * y2 - y3),
            (''labor A'', 80 - y1 - y2),
            (''labor B'', 100 - 2 * y1 - y2)]"
    by blast
  from assms(1) s have blk: "blk = BlockC ''scenario'' s
     [VarC (u_var s ''demand'') Binary None None None,
      VarC (u_var s ''profit'') Binary None None None,
      VarC (u_var s ''labor A'') Binary None None None,
      VarC (u_var s ''labor B'') Binary None None None,
      ConstraintC [K ''at_least_one_violated'']
        (LessEq (Sum [Var (u_var s ''demand''), Var (u_var s ''labor A''), Var (u_var s ''labor B'')])
                (Const 2)),
      ConstraintC [K ''model_constraints'', K ''demand'']
        (GreaterEq (Sub (Sum [Mul (Const 0) (Var (z_var ''z_A'')), Mul (Const 0) (Var (z_var ''z_B'')),
                              Mul (Const 20) (Var (z_var ''z_D''))]) (Var theta_var))
                   (Sub (Const (y1 - 20)) (Mul (Var (u_var s ''demand'')) (Const big_M)))),
      ConstraintC [K ''model_constraints'', K ''profit'']
        (GreaterEq (Sub (Sum [Mul (Const (50 * y1 + 50 * y2)) (Var (z_var ''z_A'')),
                              Mul (Const (80 * y1 + 40 * y2)) (Var (z_var ''z_B'')),
                              Mul (Const 0) (Var (z_var ''z_D''))]) (Var theta_var))
                   (Sub (Const (140 * y1 + 120 * y2 - y3)) (Mul (Var (u_var s ''profit'')) (Const big_M)))),
      ConstraintC [K ''model_constraints'', K ''labor A'']
        (GreaterEq (Sub (Sum [Mul (Const (y1 + y2)) (Var (z_var ''z_A'')), Mul (Const 0) (Var (z_var ''z_B'')),
                              Mul (Const 0) (Var (z_var ''z_D''))]) (Var theta_var))
                   (Sub (Const (80 - y1 - y2)) (Mul (Var (u_var s ''labor A'')) (Const big_M)))),
      ConstraintC [K ''model_constraints'', K ''labor B'']
        (GreaterEq (Sub (Sum [Mul (Const 0) (Var (z_var ''z_A'')), Mul (Const (2 * y1 + y2)) (Var (z_var ''z_B'')),
                              Mul (Const 0) (Var (z_var ''z_D''))]) (Var theta_var))
                   (Sub (Const (100 - 2 * y1 - y2)) (Mul (Var (u_var s ''labor B'')) (Const big_M))))]"
    apply (simp add: pessimization_scenario_def index_def sp)
    apply (simp add: L R keys_def getitem_def weighted_sum_def)
    done
  from assms(2) show ?thesis
    unfolding blk using s g by (simp add: in_bounds_def)
qed

lemma pessimization_model_SomeD:
  assumes "pessimization_model sp ms z_A_max z_B_max z_D_max Gamma = Some m"
  shows "\<exists>bs. those (map (pessimization_scenario sp ms [''z_A'', ''z_B'', ''z_D'']) [0..<length ms]) = Some bs
     \<and> m = [SetC ''Z_INDICES'' [K ''z_A'', K ''z_B'', K ''z_D''], SetC ''SCENARIOS'' (map N [0..<length ms]),
            VarC (z_var ''z_A'') Reals None None None,
            VarC (z_var ''z_B'') Reals None None None,
            VarC (z_var ''z_D'') Reals None None None,
            VarC (z_abs_var ''z_A'') NonNegativeReals None None None,
            VarC (z_abs_var ''z_B'') NonNegativeReals None None None,
            VarC (z_abs_var ''z_D'') NonNegativeReals None None None,
            VarC theta_var Reals None None None,
            ConstraintC [K ''A_ub''] (LessEq (Var (z_var ''z_A'')) (Const z_A_max)),
            ConstraintC [K ''A_lb''] (LessEq (Neg (Var (z_var ''z_A''))) (Const z_A_max)),
            ConstraintC [K ''A_abs''] (LessEq (Var (z_var ''z_A'')) (Var (z_abs_var ''z_A''))),
            ConstraintC [K ''B_lb''] (LessEq (Var (z_var ''z_B'')) (Const z_B_max)),
            ConstraintC [K ''B_ub''] (LessEq (Neg (Var (z_var ''z_B''))) (Const z_B_max)),
            ConstraintC [K ''B_abs''] (LessEq (Var (z_var ''z_B'')) (Var (z_abs_var ''z_B''))),
            ConstraintC [K ''D_lb''] (LessEq (Var (z_var ''z_D'')) (Const z_D_max)),
            ConstraintC [K ''D_ub''] (LessEq (Neg (Var (z_var ''z_D''))) (Const z_D_max)),
            ConstraintC [K ''D_abs''] (LessEq (Var (z_var ''z_D'')) (Var (z_abs_var ''z_D''))),
            ConstraintC [K ''z_budget'']
              (LessEq (Add (Add (Div (Var (z_abs_var ''z_A'')) (Const z_A_max))
                                (Div (Var (z_abs_var ''z_B'')) (Const z_B_max)))
                           (Div (Var (z_abs_var ''z_D'')) (Const z_D_max)))
                      (Const Gamma))]
           @ bs @ [ObjectiveC ''max_violation'' Maximize (Var theta_var)]"
  using assms
  by (auto simp: pessimization_model_def bind_eq_Some_conv Let_def split: if_splits)

section \<open>The chance constraint of the portfolio model\<close>

lemma quadratic_form_expand:
  "quadratic_form x = x 0 * x 0 + x 0 * x 1 + 4 * (x 0 * x 2) + 2 * (x 1 * x 1) + 5 * (x 2 * x 2)"
  by (simp add: quadratic_form_def z_cov_def lessThan_Suc numeral_3_eq_3 numeral_2_eq_2 algebra_simps)

lemma quadratic_form_nonneg: "0 \<le> quadratic_form x"
proof -
  have "quadratic_form x = (x 0 + x 1 / 2 + 2 * x 2)\<^sup>2 + (x 2 - x 1)\<^sup>2 + 3 / 4 * (x 1)\<^sup>2"
    by (simp add: quadratic_form_expand power2_eq_square algebra_simps)
  then show ?thesis by simp
qed

lemma eval_chance_lhs:
  "eval a (x_at_vec (mat_at_x z_cov)) = quadratic_form (\<lambda>i. a (asset_var i))"
  by (simp add: x_at_vec_def mat_at_x_def vec_at_x_def z_cov_def quadratic_form_def
      lessThan_Suc numeral_3_eq_3 algebra_simps)

lemma eval_mean:
  "eval a (vec_at_x z_mean) = mean_return (\<lambda>i. a (asset_var i))"
  by (simp add: vec_at_x_def z_mean_def mean_return_def lessThan_Suc numeral_3_eq_3 algebra_simps)

lemma sqrt_fixed:
  assumes "0 \<le> q" "sqrt q \<noteq> 0" "sqrt q \<noteq> 1"
  shows "q \<noteq> sqrt q"
proof
  assume e: "q = sqrt q"
  have "sqrt q * sqrt q = q" using assms(1) by simp
  with e have "sqrt q * (sqrt q - 1) = 0" by (simp add: algebra_simps)
  with assms(2,3) show False by simp
qed

section \<open>The run of the production planning script\<close>

lemma v1_model:
  "ws_model (production_planning_v1 SolverFactory) = v1_variables @ [v1_objective] @ v1_constraints"
  by (simp add: production_planning_v1_def run_def declare_component_def display_def print_expr_def
      solve_def empty_workspace_def v1_variables_def v1_objective_def v1_constraints_def Let_def)

lemma v1_log:
  "ws_log (production_planning_v1 SolverFactory) =
    [ModelDisplay [] [],
     ModelDisplay v1_variables (map (\<lambda>v. (v, Some 0)) v1_names),
     PrintExpr revenue,
     PrintExpr expense,
     ModelDisplay (v1_variables @ [v1_objective]) (map (\<lambda>v. (v, Some 0)) v1_names),
     ModelDisplay (v1_variables @ [v1_objective] @ v1_constraints) (map (\<lambda>v. (v, Some 0)) v1_names),
     SolverCall ''cbc'',
     ModelDisplay (v1_variables @ [v1_objective] @ v1_constraints)
       (map (\<lambda>v. (v, Some (solution (SolverFactory ''cbc'' (v1_variables @ [v1_objective] @ v1_constraints)) v)))
          v1_names)]"
  by (simp add: production_planning_v1_def run_def declare_component_def display_def print_expr_def
      solve_def empty_workspace_def v1_variables_def v1_objective_def v1_constraints_def Let_def
      declared_vars_def v1_names_def)

section \<open>The driver does not depend on the solver status\<close>

lemma ccg_body_same:
  assumes "\<And>name m. solution (sf name m) = solution (sf' name m)"
  shows "ccg_body sf st = ccg_body sf' st"
  by (simp add: ccg_body_def max_min_profit_def pessimization_problem_def assms)

lemma ccg_loop_same:
  "(\<And>name m. solution (sf name m) = solution (sf' name m)) \<Longrightarrow> ccg_loop sf st = ccg_loop sf' st"
proof (induction sf st rule: ccg_loop.induct)
  case (1 sf st)
  have b: "ccg_body sf st = ccg_body sf' st"
    using "1.prems" by (rule ccg_body_same)
  show ?case
  proof (cases "\<not> ccg_converged st \<and> ccg_iterations st < max_iterations")
    case True
    show ?thesis
    proof (cases "ccg_body sf st")
      case None
      have l: "ccg_loop sf st = None"
        using True None by (subst ccg_loop.simps) simp
      have r: "ccg_loop sf' st = None"
        using True None b by (subst ccg_loop.simps) simp
      from l r show ?thesis by simp
    next
      case (Some st')
      have i: "ccg_loop sf st' = ccg_loop sf' st'"
        using True Some "1.prems" by (rule "1.IH")
      have l: "ccg_loop sf st = ccg_loop sf st'"
        using True Some by (subst ccg_loop.simps) simp
      have r: "ccg_loop sf' st = ccg_loop sf' st'"
        using True Some b by (subst ccg_loop.simps) simp
      from l r i show ?thesis by simp
    qed
  next
    case False
    have l: "ccg_loop sf st = Some st"
      using False by (subst ccg_loop.simps) auto
    have r: "ccg_loop sf' st = Some st"
      using False by (subst ccg_loop.simps) auto
    from l r show ?thesis by simp
  qed
qed

section \<open>Evaluating dictionary displays\<close>

lemma repr_in_mono:
  assumes "repr_in lo hi h v l" "lo' \<le> lo" "hi \<le> hi'"
    and "\<And>a. lo \<le> a \<Longrightarrow> a < hi \<Longrightarrow> store h' a = store h a"
  shows "repr_in lo' hi' h' v l"
  using assms
proof (induction rule: repr_in.induct)
  case (repr_num lo hi h r)
  show ?case by (rule repr_in.repr_num)
next
  case (repr_dict lo a hi h d kvs)
  have "store h' a = Some d"
    using repr_dict.hyps(1,2,3) repr_dict.prems(3) by simp
  moreover have "\<forall>i<length d. repr_in lo' hi' h' (snd (d ! i)) (snd (kvs ! i))"
    using repr_dict.IH repr_dict.prems by blast
  ultimately show ?case
    using repr_dict.hyps(1,2,4) repr_dict.prems(1,2)
    by (intro repr_in.repr_dict) auto
qed

lemma alloc_correct:
  "alloc l h = (v, h') \<Longrightarrow> wf_heap h \<Longrightarrow>
     wf_heap h' \<and> extends h h' \<and> repr_in (next_addr h) (next_addr h') h' v l"
  "alloc_items kvs h = (d, h') \<Longrightarrow> wf_heap h \<Longrightarrow>
     wf_heap h' \<and> extends h h' \<and> map fst d = map fst kvs
     \<and> (\<forall>i<length d. repr_in (next_addr h) (next_addr h') h' (snd (d ! i)) (snd (kvs ! i)))"
proof (induction l h and kvs h arbitrary: v h' and d h' rule: alloc_alloc_items.induct)
  case (1 r h)
  then show ?case
    by (auto simp: extends_def intro: repr_in.repr_num)
next
  case (2 kvs h)
  obtain d h1 where a: "alloc_items kvs h = (d, h1)" by (cases "alloc_items kvs h")
  from "2.IH" [OF a "2.prems"(2)] have
    wf1: "wf_heap h1" and ex1: "extends h h1" and k: "map fst d = map fst kvs"
    and r: "\<forall>i<length d. repr_in (next_addr h) (next_addr h1) h1 (snd (d ! i)) (snd (kvs ! i))"
    by blast+
  from "2.prems"(1) a have v: "v = Ref (next_addr h1)"
    and h': "h' = h1\<lparr>store := (store h1)(next_addr h1 \<mapsto> d), next_addr := next_addr h1 + 1\<rparr>"
    by (simp_all add: Let_def)
  have wf: "wf_heap h'"
    using wf1 by (simp add: wf_heap_def h')
  have ex: "extends h h'"
    using ex1 by (auto simp: extends_def h')
  have r': "\<forall>i<length d. repr_in (next_addr h) (next_addr h') h' (snd (d ! i)) (snd (kvs ! i))"
  proof (intro allI impI)
    fix i assume "i < length d"
    with r have "repr_in (next_addr h) (next_addr h1) h1 (snd (d ! i)) (snd (kvs ! i))" by blast
    then show "repr_in (next_addr h) (next_addr h') h' (snd (d ! i)) (snd (kvs ! i))"
      by (rule repr_in_mono) (simp_all add: h')
  qed
  have "repr_in (next_addr h) (next_addr h') h' (Ref (next_addr h1)) (LDict kvs)"
    using ex1 k r' by (intro repr_in.repr_dict [where d = d]) (simp_all add: h' extends_def)
  with wf ex v show ?case by simp
next
  case (3 h)
  then show ?case by (simp add: extends_def)
next
  case (4 k l kvs h)
  obtain v1 h1 where a1: "alloc l h = (v1, h1)" by (cases "alloc l h")
  obtain d2 h2 where a2: "alloc_items kvs h1 = (d2, h2)" by (cases "alloc_items kvs h1")
  from "4.IH"(1) [OF a1 "4.prems"(2)] have
    wf1: "wf_heap h1" and ex1: "extends h h1"
    and r1: "repr_in (next_addr h) (next_addr h1) h1 v1 l"
    by blast+
  from "4.IH"(2) [OF a1 [symmetric] refl a2 wf1] have
    wf2: "wf_heap h2" and ex2: "extends h1 h2" and k2: "map fst d2 = map fst kvs"
    and r2: "\<forall>i<length d2. repr_in (next_addr h1) (next_addr h2) h2 (snd (d2 ! i)) (snd (kvs ! i))"
    by blast+
  from "4.prems"(1) a1 a2 have d: "d = (k, v1) # d2" and h': "h' = h2"
    by simp_all
  have ex: "extends h h2"
    using ex1 ex2 by (auto simp: extends_def)
  have r1': "repr_in (next_addr h) (next_addr h2) h2 v1 l"
    using r1 by (rule repr_in_mono) (use ex1 ex2 in \<open>auto simp: extends_def\<close>)
  have r2': "repr_in (next_addr h) (next_addr h2) h2 (snd (d2 ! i)) (snd (kvs ! i))" if "i < length d2" for i
  proof -
    from r2 that have "repr_in (next_addr h1) (next_addr h2) h2 (snd (d2 ! i)) (snd (kvs ! i))" by blast
    then show ?thesis
      by (rule repr_in_mono) (use ex1 in \<open>auto simp: extends_def\<close>)
  qed
  have "\<forall>i<length d. repr_in (next_addr h) (next_addr h') h' (snd (d ! i)) (snd (((k, l) # kvs) ! i))"
    using r1' r2' by (auto simp: d h' nth_Cons split: nat.splits)
  with wf2 ex k2 show ?case by (simp add: d h')
qed

lemma alloc_all_correct:
  "alloc_all ls h = (vs, h') \<Longrightarrow> wf_heap h \<Longrightarrow>
     wf_heap h' \<and> extends h h' \<and> list_all2 (repr_in (next_addr h) (next_addr h') h') vs ls"
proof (induction ls arbitrary: h vs h')
  case Nil
  then show ?case by (simp add: extends_def)
next
  case (Cons l ls)
  obtain v1 h1 where a1: "alloc l h = (v1, h1)" by (cases "alloc l h")
  obtain vs2 h2 where a2: "alloc_all ls h1 = (vs2, h2)" by (cases "alloc_all ls h1")
  from alloc_correct(1) [OF a1 Cons.prems(2)] have
    wf1: "wf_heap h1" and ex1: "extends h h1"
    and r1: "repr_in (next_addr h) (next_addr h1) h1 v1 l"
    by blast+
  from Cons.IH [OF a2 wf1] have
    wf2: "wf_heap h2" and ex2: "extends h1 h2"
    and r2: "list_all2 (repr_in (next_addr h1) (next_addr h2) h2) vs2 ls"
    by blast+
  from Cons.prems(1) a1 a2 have vs: "vs = v1 # vs2" and h': "h' = h2"
    by simp_all
  have ex: "extends h h2"
    using ex1 ex2 by (auto simp: extends_def)
  have r1': "repr_in (next_addr h) (next_addr h2) h2 v1 l"
    using r1 by (rule repr_in_mono) (use ex1 ex2 in \<open>auto simp: extends_def\<close>)
  have r2': "list_all2 (repr_in (next_addr h) (next_addr h2) h2) vs2 ls"
    using r2
  proof (rule list_all2_mono)
    fix v l assume "repr_in (next_addr h1) (next_addr h2) h2 v l"
    then show "repr_in (next_addr h) (next_addr h2) h2 v l"
      by (rule repr_in_mono) (use ex1 in \<open>auto simp: extends_def\<close>)
  qed
  from wf2 ex r1' r2' show ?case by (simp add: vs h')
qed

lemma model_params_heap_correct:
  assumes "wf_heap h" "model_params_heap z_A z_B z_D h = (vs, h')"
  shows "wf_heap h' \<and> extends h h'
     \<and> list_all2 (repr_in (next_addr h) (next_addr h') h') vs
          (case model_params z_A z_B z_D of
             (c, q, R, S, t) \<Rightarrow> [lit_of_dict c, lit_of_dict q, lit_of_dict2 R, lit_of_dict2 S, lit_of_dict t])"
proof -
  obtain c q R S t where mp: "model_params z_A z_B z_D = (c, q, R, S, t)"
    by (cases "model_params z_A z_B z_D")
  from assms(2) have
    "alloc_all [lit_of_dict c, lit_of_dict q, lit_of_dict2 R, lit_of_dict2 S, lit_of_dict t] h = (vs, h')"
    by (simp add: model_params_heap_def mp del: alloc_all.simps)
  from alloc_all_correct [OF this assms(1)] show ?thesis
    by (simp add: mp)
qed

lemma subproblem_params_heap_correct:
  assumes "wf_heap h" "store h a = Some d"
  shows "case subproblem_params (numeric_items d) of
           None \<Rightarrow> subproblem_params_heap (Ref a) h = None
         | Some (L, R) \<Rightarrow>
            (\<exists>vs h'. subproblem_params_heap (Ref a) h = Some (vs, h')
               \<and> wf_heap h' \<and> extends h h'
               \<and> list_all2 (repr_in (next_addr h) (next_addr h') h') vs
                    [lit_of_dict2 L, lit_of_dict R])"
proof (cases "subproblem_params (numeric_items d)")
  case None
  then show ?thesis by (simp add: subproblem_params_heap_def assms(2))
next
  case (Some LR)
  obtain L R where LR: "LR = (L, R)" by (cases LR)
  obtain vs h' where a: "alloc_all [lit_of_dict2 L, lit_of_dict R] h = (vs, h')"
    by (cases "alloc_all [lit_of_dict2 L, lit_of_dict R] h")
  have "subproblem_params_heap (Ref a) h = Some (vs, h')"
    by (simp add: subproblem_params_heap_def assms(2) Some LR a del: alloc_all.simps)
  with alloc_all_correct [OF a assms(1)] show ?thesis
    by (simp add: Some LR)
qed

lemma successive_calls_disjoint:
  assumes "wf_heap h" "model_params_heap z_A z_B z_D h = (vs1, h')"
    and "model_params_heap z_A' z_B' z_D' h' = (vs2, h'')"
  shows "\<exists>lits1 lits2. list_all2 (repr_in (next_addr h) (next_addr h') h'') vs1 lits1
       \<and> list_all2 (repr_in (next_addr h') (next_addr h'') h'') vs2 lits2
       \<and> next_addr h \<le> next_addr h' \<and> next_addr h' \<le> next_addr h''"
proof -
  define lits1 where "lits1 = (case model_params z_A z_B z_D of
     (c, q, R, S, t) \<Rightarrow> [lit_of_dict c, lit_of_dict q, lit_of_dict2 R, lit_of_dict2 S, lit_of_dict t])"
  define lits2 where "lits2 = (case model_params z_A' z_B' z_D' of
     (c, q, R, S, t) \<Rightarrow> [lit_of_dict c, lit_of_dict q, lit_of_dict2 R, lit_of_dict2 S, lit_of_dict t])"
  from model_params_heap_correct [OF assms(1,2)] have
    wf': "wf_heap h'" and ex1: "extends h h'"
    and r1: "list_all2 (repr_in (next_addr h) (next_addr h') h') vs1 lits1"
    unfolding lits1_def by blast+
  from model_params_heap_correct [OF wf' assms(3)] have
    ex2: "extends h' h''"
    and r2: "list_all2 (repr_in (next_addr h') (next_addr h'') h'') vs2 lits2"
    unfolding lits2_def by blast+
  have "list_all2 (repr_in (next_addr h) (next_addr h') h'') vs1 lits1"
    using r1
  proof (rule list_all2_mono)
    fix v l assume "repr_in (next_addr h) (next_addr h') h' v l"
    then show "repr_in (next_addr h) (next_addr h') h'' v l"
      by (rule repr_in_mono) (use ex2 in \<open>auto simp: extends_def\<close>)
  qed
  with r2 ex1 ex2 show ?thesis
    unfolding extends_def by blast
qed

lemma repr_in_fresh:
  assumes "wf_heap h" "list_all2 (repr_in (next_addr h) (next_addr h') h') vs ls"
    and "list_all is_dict_literal ls"
  shows "fresh_dicts h h' vs"
  using assms(2,3)
proof (induction rule: list_all2_induct)
  case Nil
  show ?case by (simp add: fresh_dicts_def)
next
  case (Cons v vs l ls)
  from Cons.prems obtain kvs where l: "l = LDict kvs" by (cases l) auto
  from Cons.hyps(1) obtain a where "v = Ref a" "next_addr h \<le> a" "a < next_addr h'" "store h' a \<noteq> None"
    unfolding l by (cases rule: repr_in.cases) auto
  moreover from this assms(1) have "store h a = None" by (simp add: wf_heap_def)
  moreover have "fresh_dicts h h' vs"
    using Cons.IH Cons.prems by simp
  ultimately show ?case
    by (simp add: fresh_dicts_def del: not_None_eq)
qed

lemma params_literals_dicts: "list_all is_dict_literal (params_literals p)"
  by (cases p) (simp add: params_literals_def lit_of_dict_def lit_of_dict2_def)

lemma subparams_literals_dicts: "list_all is_dict_literal (subparams_literals p)"
  by (cases p) (simp add: subparams_literals_def lit_of_dict_def lit_of_dict2_def)

lemma model_params_heap_fresh:
  assumes "wf_heap h" "model_params_heap z_A z_B z_D h = (vs, h')"
  shows "list_all2 (repr_in (next_addr h) (next_addr h') h') vs (params_literals (model_params z_A z_B z_D))
     \<and> fresh_dicts h h' vs \<and> extends h h' \<and> wf_heap h'"
proof -
  from model_params_heap_correct [OF assms] have
    w: "wf_heap h'" and e: "extends h h'"
    and r: "list_all2 (repr_in (next_addr h) (next_addr h') h') vs (params_literals (model_params z_A z_B z_D))"
    unfolding params_literals_def by blast+
  from repr_in_fresh [OF assms(1) r params_literals_dicts] w e r show ?thesis by simp
qed

lemma subproblem_params_heap_fresh:
  assumes "wf_heap h" "store h a = Some d"
  shows "case subproblem_params (numeric_items d) of
           None \<Rightarrow> subproblem_params_heap (Ref a) h = None
         | Some LR \<Rightarrow>
            (\<exists>vs h'. subproblem_params_heap (Ref a) h = Some (vs, h')
               \<and> list_all2 (repr_in (next_addr h) (next_addr h') h') vs (subparams_literals LR)
               \<and> fresh_dicts h h' vs \<and> extends h h' \<and> wf_heap h')"
proof (cases "subproblem_params (numeric_items d)")
  case None
  with subproblem_params_heap_correct [OF assms] show ?thesis by simp
next
  case (Some LR)
  obtain L R where LR: "LR = (L, R)" by (cases LR)
  from subproblem_params_heap_correct [OF assms] Some LR obtain vs h' where
    s: "subproblem_params_heap (Ref a) h = Some (vs, h')"
    and w: "wf_heap h'" and e: "extends h h'"
    and r: "list_all2 (repr_in (next_addr h) (next_addr h') h') vs (subparams_literals LR)"
    by (auto simp: subparams_literals_def)
  from repr_in_fresh [OF assms(1) r subparams_literals_dicts] s w e r show ?thesis
    by (simp add: Some)
qed

lemma successive_calls_literals:
  assumes "wf_heap h" "model_params_heap z_A z_B z_D h = (vs1, h')"
    and "model_params_heap z_A' z_B' z_D' h' = (vs2, h'')"
  shows "list_all2 (repr_in (next_addr h) (next_addr h') h'') vs1 (params_literals (model_params z_A z_B z_D))
       \<and> list_all2 (repr_in (next_addr h') (next_addr h'') h'') vs2 (params_literals (model_params z_A' z_B' z_D'))
       \<and> next_addr h \<le> next_addr h' \<and> next_addr h' \<le> next_addr h''"
proof -
  from model_params_heap_fresh [OF assms(1,2)] have
    wf': "wf_heap h'" and ex1: "extends h h'"
    and r1: "list_all2 (repr_in (next_addr h) (next_addr h') h') vs1 (params_literals (model_params z_A z_B z_D))"
    by blast+
  from model_params_heap_fresh [OF wf' assms(3)] have
    ex2: "extends h' h''"
    and r2: "list_all2 (repr_in (next_addr h') (next_addr h'') h'') vs2 (params_literals (model_params z_A' z_B' z_D'))"
    by blast+
  have "list_all2 (repr_in (next_addr h) (next_addr h') h'') vs1 (params_literals (model_params z_A z_B z_D))"
    using r1
  proof (rule list_all2_mono)
    fix v l assume "repr_in (next_addr h) (next_addr h') h' v l"
    then show "repr_in (next_addr h) (next_addr h') h'' v l"
      by (rule repr_in_mono) (use ex2 in \<open>auto simp: extends_def\<close>)
  qed
  with r2 ex1 ex2 show ?thesis
    unfolding extends_def by blast
qed

section \<open>The shapes of the models the notebooks build\<close>

































section \<open>The claims about the column and constraint generation driver\<close>



text \<open>
  Claim C2, as stated: whenever the loop exits, the last \<open>theta_opt\<close> is below the
  tolerance.  This fails: with a solver whose pessimization always reports the violation
  \<open>1\<close> the loop leaves through the iteration cap, after \<open>50\<close> iterations, not converged,
  with \<open>theta_opt = 1\<close>.
\<close>

theorem ccg_exit_counterexample:
  "ccg_loop (constant_solver 1) ccg_init =
     Some \<lparr>ccg_converged = False, ccg_iterations = 50,
        Z = [(''z_A'', 0), (''z_B'', 0), (''z_D'', 0)] # replicate 50 [(''z_A'', 1), (''z_B'', 1), (''z_D'', 1)],
        theta_opt = Some 1\<rparr>
   \<and> \<not> (1 < stopping_precision)"
  using stubborn_loop [of 50] by (simp add: stubborn_init [symmetric]) (simp add: stubborn_state_def stopping_precision_def)

text \<open>
  Claim C2, amended.  For every solver the loop, started in the initial state of the
  script, exits after at least one pessimization, and on exit either \<open>ccg_converged\<close> is set
  and the last \<open>theta_opt\<close> is below \<open>stopping_precision = 0.1\<close>, or \<open>ccg_converged\<close> is
  not set, \<open>ccg_iterations\<close> has reached \<open>max_iterations = 50\<close> and the last \<open>theta_opt\<close>
  is at least the tolerance: the last pessimization still reported a violation.
\<close>

theorem ccg_exit:
  "\<exists>st theta. ccg_loop SolverFactory ccg_init = Some st \<and> theta_opt st = Some theta
     \<and> (if ccg_converged st then theta < stopping_precision
         else ccg_iterations st = max_iterations \<and> stopping_precision \<le> theta)
     \<and> max_iterations = 50 \<and> stopping_precision = 0.1"
proof -
  from ccg_loop_inv [OF ccg_inv_init, of SolverFactory] obtain st where
    l: "ccg_loop SolverFactory ccg_init = Some st" and i: "ccg_inv st"
    and e: "ccg_converged st \<or> ccg_iterations st = max_iterations"
    by blast
  show ?thesis
  proof (cases "ccg_converged st")
    case True
    with i l show ?thesis
      by (auto simp: ccg_inv_def max_iterations_def stopping_precision_def)
  next
    case False
    with e have "ccg_iterations st = max_iterations" by simp
    with False i l show ?thesis
      by (auto simp: ccg_inv_def max_iterations_def stopping_precision_def)
  qed
qed

text \<open>
  Claim C3.  For every solver the loop terminates, and it evaluates its test at most
  \<open>max_iterations + 1 = 51\<close> times, that is it runs at most \<open>50\<close> iterations:
  \<open>ccg_iterations\<close> is \<open>0\<close> at the first test and one more at each following test, never
  more than \<open>50\<close>; and \<open>Z\<close>, which starts as the single null scenario, never holds more
  than \<open>51\<close> scenarios.
\<close>

theorem ccg_loop_bounded:
  "ccg_loop SolverFactory ccg_init = Some (last (ccg_states SolverFactory ccg_init))
   \<and> length (ccg_states SolverFactory ccg_init) \<le> max_iterations + 1
   \<and> max_iterations = 50
   \<and> map ccg_iterations (ccg_states SolverFactory ccg_init)
       = [0 ..< length (ccg_states SolverFactory ccg_init)]
   \<and> Z ccg_init = [[(''z_A'', 0), (''z_B'', 0), (''z_D'', 0)]]
   \<and> list_all (\<lambda>st. ccg_iterations st \<le> 50 \<and> length (Z st) \<le> 51)
        (ccg_states SolverFactory ccg_init)"
proof -
  from ccg_states_inv [OF ccg_inv_init, of SolverFactory]
  have h1: "list_all ccg_inv (ccg_states SolverFactory ccg_init)"
    and h2: "length (ccg_states SolverFactory ccg_init) \<le> max_iterations - ccg_iterations ccg_init + 1"
    and h3: "ccg_loop SolverFactory ccg_init = Some (last (ccg_states SolverFactory ccg_init))"
    and h4: "map ccg_iterations (ccg_states SolverFactory ccg_init)
       = [ccg_iterations ccg_init ..< ccg_iterations ccg_init + length (ccg_states SolverFactory ccg_init)]"
    by blast+
  have z: "ccg_iterations ccg_init = 0" by (simp add: ccg_init_def)
  have c6: "list_all (\<lambda>st. ccg_iterations st \<le> 50 \<and> length (Z st) \<le> 51)
        (ccg_states SolverFactory ccg_init)"
    using h1 by (auto simp: list_all_iff ccg_inv_def max_iterations_def)
  show ?thesis
    using h2 h3 h4 c6 by (simp add: z) (simp add: ccg_init_def max_iterations_def)
qed

text \<open>
  The bounds are attained: when every pessimization reports a violation the test is
  evaluated \<open>51\<close> times and the loop ends after \<open>50\<close> iterations with \<open>51\<close> scenarios.
\<close>

theorem ccg_loop_bounded_witness:
  "length (ccg_states (constant_solver 1) ccg_init) = 51
   \<and> ccg_iterations (last (ccg_states (constant_solver 1) ccg_init)) = 50
   \<and> length (Z (last (ccg_states (constant_solver 1) ccg_init))) = 51"
proof -
  have l: "ccg_loop (constant_solver 1) ccg_init = Some (stubborn_state 50)"
    using stubborn_loop [of 50] by (simp add: stubborn_init)
  have "ccg_loop (constant_solver 1) ccg_init = Some (last (ccg_states (constant_solver 1) ccg_init))"
    using ccg_loop_bounded [of "constant_solver 1"] by (rule conjunct1)
  with l have "last (ccg_states (constant_solver 1) ccg_init) = stubborn_state 50"
    by simp
  moreover have "length (ccg_states (constant_solver 1) ccg_init) = 51"
    using stubborn_states [of 50] by (simp add: stubborn_init)
  ultimately show ?thesis
    by (simp add: stubborn_state_def)
qed

section \<open>The claim about the sampler\<close>

text \<open>
  Claim C4.  Every dictionary that \<open>z_sample\<close> returns has \<open>|z_A| \<le> 0.15\<close>,
  \<open>|z_B| \<le> 0.25\<close>, \<open>|z_D| \<le> 0.25\<close> and the signed budget
  \<open>z_A/0.15 + z_B/0.25 + z_D/0.25 \<le> 2\<close>.  The acceptance test is on the signed values:
  a round whose three draws are all negative is accepted at once, and some draws yield a
  returned sample whose absolute-value budget \<open>|z_A|/0.15 + |z_B|/0.25 + |z_D|/0.25\<close>
  exceeds \<open>2\<close>.
\<close>

theorem z_sample_budget:
  "(\<forall>us s. list_all uniform_draw us \<and> z_sample us = Some s \<longrightarrow>
      (\<exists>z_A z_B z_D. s = [(''z_A'', z_A), (''z_B'', z_B), (''z_D'', z_D)]
         \<and> \<bar>z_A\<bar> \<le> 0.15 \<and> \<bar>z_B\<bar> \<le> 0.25 \<and> \<bar>z_D\<bar> \<le> 0.25
         \<and> z_A / 0.15 + z_B / 0.25 + z_D / 0.25 \<le> 2))
   \<and> (\<forall>u1 u2 u3 us. u1 < 0 \<and> u2 < 0 \<and> u3 < 0 \<longrightarrow>
         z_sample (u1 # u2 # u3 # us) =
           Some [(''z_A'', 0.15 * u1), (''z_B'', 0.25 * u2), (''z_D'', 0.25 * u3)])
   \<and> (\<exists>us z_A z_B z_D. list_all uniform_draw us
         \<and> z_sample us = Some [(''z_A'', z_A), (''z_B'', z_B), (''z_D'', z_D)]
         \<and> \<not> \<bar>z_A\<bar> / 0.15 + \<bar>z_B\<bar> / 0.25 + \<bar>z_D\<bar> / 0.25 \<le> 2)"
proof (intro conjI allI impI)
  fix us s
  assume "list_all uniform_draw us \<and> z_sample us = Some s"
  then show "\<exists>z_A z_B z_D. s = [(''z_A'', z_A), (''z_B'', z_B), (''z_D'', z_D)]
         \<and> \<bar>z_A\<bar> \<le> 0.15 \<and> \<bar>z_B\<bar> \<le> 0.25 \<and> \<bar>z_D\<bar> \<le> 0.25
         \<and> z_A / 0.15 + z_B / 0.25 + z_D / 0.25 \<le> 2"
    using z_sample_sound by blast
next
  fix u1 u2 u3 :: real and us
  assume "u1 < 0 \<and> u2 < 0 \<and> u3 < 0"
  then have "u1 + u2 + u3 \<le> 2" by simp
  then show "z_sample (u1 # u2 # u3 # us) =
           Some [(''z_A'', 0.15 * u1), (''z_B'', 0.25 * u2), (''z_D'', 0.25 * u3)]"
    by (rule z_sample_accept)
next
  have "list_all uniform_draw [- 0.8, - 0.8, - 0.8]"
    by (simp add: uniform_draw_def)
  moreover have "z_sample [- 0.8, - 0.8, - 0.8] = Some [(''z_A'', - 0.12), (''z_B'', - 0.2), (''z_D'', - 0.2)]"
    by (simp add: getitem_def)
  moreover have "\<not> \<bar>- 0.12 :: real\<bar> / 0.15 + \<bar>- 0.2\<bar> / 0.25 + \<bar>- 0.2\<bar> / 0.25 \<le> 2"
    by simp
  ultimately show "\<exists>us z_A z_B z_D. list_all uniform_draw us
         \<and> z_sample us = Some [(''z_A'', z_A), (''z_B'', z_B), (''z_D'', z_D)]
         \<and> \<not> \<bar>z_A\<bar> / 0.15 + \<bar>z_B\<bar> / 0.25 + \<bar>z_D\<bar> / 0.25 \<le> 2"
    by blast
qed

text \<open>
  A run of the sampler on six draws: the first round is rejected (its signed budget is
  \<open>2.7\<close>), the second is accepted and returned within the bounds.
\<close>

theorem z_sample_budget_witness:
  "list_all uniform_draw [0.9, 0.9, 0.9, 0.5, - 0.5, 0.25]
   \<and> z_sample [0.9, 0.9, 0.9, 0.5, - 0.5, 0.25] = Some [(''z_A'', 0.075), (''z_B'', - 0.125), (''z_D'', 0.0625)]
   \<and> (\<exists>z_A z_B z_D. [(''z_A'', 0.075), (''z_B'', - 0.125), (''z_D'', 0.0625)] = [(''z_A'', z_A), (''z_B'', z_B), (''z_D'', z_D :: real)]
         \<and> \<bar>z_A\<bar> \<le> 0.15 \<and> \<bar>z_B\<bar> \<le> 0.25 \<and> \<bar>z_D\<bar> \<le> 0.25
         \<and> z_A / 0.15 + z_B / 0.25 + z_D / 0.25 \<le> 2)"
proof -
  have d: "list_all uniform_draw [0.9, 0.9, 0.9, 0.5, - 0.5, 0.25]"
    by (simp add: uniform_draw_def)
  have z: "z_sample [0.9, 0.9, 0.9, 0.5, - 0.5, 0.25] = Some [(''z_A'', 0.075), (''z_B'', - 0.125), (''z_D'', 0.0625)]"
    by (simp add: getitem_def)
  from z_sample_budget d z show ?thesis by blast
qed

section \<open>The claim about the pessimization model\<close>

text \<open>
  Claim C5.  Every feasible assignment of the model built by \<open>pessimization_problem\<close>
  satisfies the box bounds \<open>|z[z_A]| \<le> z_A_max\<close>, \<open>|z[z_B]| \<le> z_B_max\<close>,
  \<open>|z[z_D]| \<le> z_D_max\<close>.  In every scenario block the binaries \<open>u\<close> of the three rows
  other than \<open>profit\<close> (demand, labor A, labor B) sum to at most \<open>len(L.keys()) - 2 = 2\<close>,
  so at least one of them is \<open>0\<close>; and for each such row \<open>k\<close> with \<open>u[k] = 0\<close> the left-hand
  side \<open>sum(L[k][i] * z[i])\<close> is at least \<open>R[k] + theta\<close>.
\<close>

theorem pessimization_feasible:
  assumes "pessimization_model subproblem_params ms z_A_max z_B_max z_D_max Gamma = Some m"
    and "feasible m a"
  shows "\<bar>a (z_var ''z_A'')\<bar> \<le> z_A_max \<and> \<bar>a (z_var ''z_B'')\<bar> \<le> z_B_max
     \<and> \<bar>a (z_var ''z_D'')\<bar> \<le> z_D_max
     \<and> (\<forall>s<length ms. \<exists>L R. subproblem_params (ms ! s) = Some (L, R)
           \<and> int (length (keys L)) - 2 = 2
           \<and> a (u_var s ''demand'') + a (u_var s ''labor A'') + a (u_var s ''labor B'') \<le> 2
           \<and> (a (u_var s ''demand'') = 0 \<or> a (u_var s ''labor A'') = 0 \<or> a (u_var s ''labor B'') = 0)
           \<and> (\<forall>k\<in>set [''demand'', ''labor A'', ''labor B'']. a (u_var s k) = 0 \<longrightarrow>
                 (\<exists>Lk Rk lhs. getitem L k = Some Lk \<and> getitem R k = Some Rk
                    \<and> weighted_sum Lk z_var [''z_A'', ''z_B'', ''z_D''] = Some lhs
                    \<and> eval a lhs \<ge> Rk + a theta_var)))"
proof -
  from pessimization_model_SomeD [OF assms(1)] obtain bs where
    bs: "those (map (pessimization_scenario subproblem_params ms [''z_A'', ''z_B'', ''z_D'']) [0..<length ms]) = Some bs"
    and m: "m = [SetC ''Z_INDICES'' [K ''z_A'', K ''z_B'', K ''z_D''], SetC ''SCENARIOS'' (map N [0..<length ms]),
            VarC (z_var ''z_A'') Reals None None None,
            VarC (z_var ''z_B'') Reals None None None,
            VarC (z_var ''z_D'') Reals None None None,
            VarC (z_abs_var ''z_A'') NonNegativeReals None None None,
            VarC (z_abs_var ''z_B'') NonNegativeReals None None None,
            VarC (z_abs_var ''z_D'') NonNegativeReals None None None,
            VarC theta_var Reals None None None,
            ConstraintC [K ''A_ub''] (LessEq (Var (z_var ''z_A'')) (Const z_A_max)),
            ConstraintC [K ''A_lb''] (LessEq (Neg (Var (z_var ''z_A''))) (Const z_A_max)),
            ConstraintC [K ''A_abs''] (LessEq (Var (z_var ''z_A'')) (Var (z_abs_var ''z_A''))),
            ConstraintC [K ''B_lb''] (LessEq (Var (z_var ''z_B'')) (Const z_B_max)),
            ConstraintC [K ''B_ub''] (LessEq (Neg (Var (z_var ''z_B''))) (Const z_B_max)),
            ConstraintC [K ''B_abs''] (LessEq (Var (z_var ''z_B'')) (Var (z_abs_var ''z_B''))),
            ConstraintC [K ''D_lb''] (LessEq (Var (z_var ''z_D'')) (Const z_D_max)),
            ConstraintC [K ''D_ub''] (LessEq (Neg (Var (z_var ''z_D''))) (Const z_D_max)),
            ConstraintC [K ''D_abs''] (LessEq (Var (z_var ''z_D'')) (Var (z_abs_var ''z_D''))),
            ConstraintC [K ''z_budget'']
              (LessEq (Add (Add (Div (Var (z_abs_var ''z_A'')) (Const z_A_max))
                                (Div (Var (z_abs_var ''z_B'')) (Const z_B_max)))
                           (Div (Var (z_abs_var ''z_D'')) (Const z_D_max)))
                      (Const Gamma))]
           @ bs @ [ObjectiveC ''max_violation'' Maximize (Var theta_var)]"
    by blast
  from assms(2) have box: "a (z_var ''z_A'') \<le> z_A_max" "- a (z_var ''z_A'') \<le> z_A_max"
      "a (z_var ''z_B'') \<le> z_B_max" "- a (z_var ''z_B'') \<le> z_B_max"
      "a (z_var ''z_D'') \<le> z_D_max" "- a (z_var ''z_D'') \<le> z_D_max"
    and sat: "list_all (satisfies a) bs"
    unfolding m feasible_def by simp_all
  have c1: "\<bar>a (z_var ''z_A'')\<bar> \<le> z_A_max" "\<bar>a (z_var ''z_B'')\<bar> \<le> z_B_max"
    "\<bar>a (z_var ''z_D'')\<bar> \<le> z_D_max"
    using box by (simp_all add: abs_le_iff)
  have c2: "\<exists>L R. subproblem_params (ms ! s) = Some (L, R)
           \<and> int (length (keys L)) - 2 = 2
           \<and> a (u_var s ''demand'') + a (u_var s ''labor A'') + a (u_var s ''labor B'') \<le> 2
           \<and> (a (u_var s ''demand'') = 0 \<or> a (u_var s ''labor A'') = 0 \<or> a (u_var s ''labor B'') = 0)
           \<and> (\<forall>k\<in>set [''demand'', ''labor A'', ''labor B'']. a (u_var s k) = 0 \<longrightarrow>
                 (\<exists>Lk Rk lhs. getitem L k = Some Lk \<and> getitem R k = Some Rk
                    \<and> weighted_sum Lk z_var [''z_A'', ''z_B'', ''z_D''] = Some lhs
                    \<and> eval a lhs \<ge> Rk + a theta_var))"
    if s: "s < length ms" for s
  proof -
    from those_map_nth [OF bs] s have
      b: "pessimization_scenario subproblem_params ms [''z_A'', ''z_B'', ''z_D''] s = Some (bs ! s)"
      and l: "s < length bs"
      by auto
    from sat l have sb: "satisfies a (bs ! s)"
      by (simp add: list_all_length)
    from pessimization_scenario_sat [OF b sb] obtain y1 y2 y3 where
      g: "getitem (ms ! s) ''y1'' = Some y1" "getitem (ms ! s) ''y2'' = Some y2" "getitem (ms ! s) ''y3'' = Some y3"
      and u: "a (u_var s ''demand'') = 0 \<or> a (u_var s ''demand'') = 1"
         "a (u_var s ''labor A'') = 0 \<or> a (u_var s ''labor A'') = 1"
         "a (u_var s ''labor B'') = 0 \<or> a (u_var s ''labor B'') = 1"
      and su: "a (u_var s ''demand'') + a (u_var s ''labor A'') + a (u_var s ''labor B'') \<le> 2"
      and r1: "20 * a (z_var ''z_D'') - a theta_var \<ge> (y1 - 20) - a (u_var s ''demand'') * big_M"
      and r2: "(y1 + y2) * a (z_var ''z_A'') - a theta_var \<ge> (80 - y1 - y2) - a (u_var s ''labor A'') * big_M"
      and r3: "(2 * y1 + y2) * a (z_var ''z_B'') - a theta_var \<ge> (100 - 2 * y1 - y2) - a (u_var s ''labor B'') * big_M"
      by blast
    have z: "a (u_var s ''demand'') = 0 \<or> a (u_var s ''labor A'') = 0 \<or> a (u_var s ''labor B'') = 0"
      using u su by auto
    define L where "L = [(''demand'', [(''z_A'', 0), (''z_B'', 0), (''z_D'', 20)]),
            (''profit'', [(''z_A'', 50 * y1 + 50 * y2), (''z_B'', 80 * y1 + 40 * y2), (''z_D'', 0)]),
            (''labor A'', [(''z_A'', y1 + y2), (''z_B'', 0), (''z_D'', 0)]),
            (''labor B'', [(''z_A'', 0), (''z_B'', 2 * y1 + y2), (''z_D'', 0)])]"
    define R where "R = [(''demand'', y1 - 20),
            (''profit'', 140 * y1 + 120 * y2 - y3),
            (''labor A'', 80 - y1 - y2),
            (''labor B'', 100 - 2 * y1 - y2)]"
    have sp: "subproblem_params (ms ! s) = Some (L, R)"
      by (simp add: subproblem_params_def g L_def R_def)
    have len: "int (length (keys L)) - 2 = 2"
      by (simp add: L_def keys_def)
    have rows: "\<forall>k\<in>set [''demand'', ''labor A'', ''labor B'']. a (u_var s k) = 0 \<longrightarrow>
                 (\<exists>Lk Rk lhs. getitem L k = Some Lk \<and> getitem R k = Some Rk
                    \<and> weighted_sum Lk z_var [''z_A'', ''z_B'', ''z_D''] = Some lhs
                    \<and> eval a lhs \<ge> Rk + a theta_var)"
      using r1 r2 r3 by (auto simp: L_def R_def getitem_def weighted_sum_def)
    from sp len su z rows show ?thesis by blast
  qed
  from c1 c2 show ?thesis by blast
qed

text \<open>
  The hypotheses are satisfiable: the model for the one-scenario master solution with all
  values \<open>0\<close> is built, the example assignment is feasible for it, its demand binary is
  \<open>0\<close> and the demand row \<open>20 * z_D \<ge> (0 - 20) + theta\<close> holds.
\<close>

theorem pessimization_feasible_witness:
  "\<exists>m. pessimization_model subproblem_params example_solution 0.15 0.25 0.25 2 = Some m
     \<and> feasible m example_assignment
     \<and> \<bar>example_assignment (z_var ''z_A'')\<bar> \<le> 0.15
     \<and> example_assignment (u_var 0 ''demand'') = 0
     \<and> (\<exists>lhs. weighted_sum [(''z_A'', 0), (''z_B'', 0), (''z_D'', 20)] z_var [''z_A'', ''z_B'', ''z_D''] = Some lhs
            \<and> eval example_assignment lhs \<ge> (0 - 20) + example_assignment theta_var)"
proof -
  obtain m where m: "pessimization_model subproblem_params example_solution 0.15 0.25 0.25 2 = Some m"
    by (simp add: pessimization_model_def example_solution_def index_def subproblem_params_def getitem_def
        pessimization_scenario_def keys_def weighted_sum_def)
  have f: "feasible m example_assignment"
    using m
    by (auto simp: pessimization_model_def example_solution_def index_def subproblem_params_def getitem_def
        pessimization_scenario_def keys_def weighted_sum_def feasible_def example_assignment_def
        u_var_def z_var_def z_abs_var_def theta_var_def in_bounds_def big_M_def)
  from pessimization_feasible [OF m f] show ?thesis
    using m f
    by (simp add: example_solution_def subproblem_params_def getitem_def keys_def weighted_sum_def
        example_assignment_def u_var_def z_var_def theta_var_def)
qed

section \<open>The claim about the chance constraint\<close>

text \<open>
  Claim C7.  The constraint \<open>chance_constraint\<close> of the portfolio model is
  \<open>norm.ppf(1 - beta) * (x\<^sup>T (\<Sigma> x)) \<le> z_mean\<^sup>T x - alpha\<close>: its left-hand side is the
  quantile times the quadratic form itself.  The norm \<open>\<parallel>\<Sigma>\<^sup>1\<^sup>/\<^sup>2 x\<parallel>\<^sub>2\<close> of the stated
  second-order cone formulation is the square root of the quadratic form, so at every
  \<open>x\<close> whose norm is neither \<open>0\<close> nor \<open>1\<close> the quadratic form differs from the norm, and
  (the quantile \<open>norm.ppf(1 - beta)\<close> being non-zero) the left-hand side of the built
  constraint differs from that of the norm-based one.
\<close>

theorem chance_constraint_quadratic:
  "(let x = (\<lambda>i. a (asset_var i));
        lhs = Mul (Const (norm_ppf (1 - beta))) (x_at_vec (mat_at_x z_cov));
        rhs = Sub (vec_at_x z_mean) (Const alpha)
    in ConstraintC [K ''chance_constraint''] (LessEq lhs rhs) \<in> set (portfolio_model norm_ppf)
     \<and> eval a lhs = norm_ppf (1 - beta) * quadratic_form x
     \<and> eval a rhs = mean_return x - alpha
     \<and> holds a (LessEq lhs rhs) = (norm_ppf (1 - beta) * quadratic_form x \<le> mean_return x - alpha)
     \<and> sigma_norm x * sigma_norm x = quadratic_form x
     \<and> (sigma_norm x \<noteq> 0 \<and> sigma_norm x \<noteq> 1 \<longrightarrow> quadratic_form x \<noteq> sigma_norm x)
     \<and> (norm_ppf (1 - beta) \<noteq> 0 \<and> sigma_norm x \<noteq> 0 \<and> sigma_norm x \<noteq> 1 \<longrightarrow>
          eval a lhs \<noteq> norm_ppf (1 - beta) * sigma_norm x))"
proof -
  define x where "x = (\<lambda>i. a (asset_var i))"
  have c1: "ConstraintC [K ''chance_constraint'']
      (LessEq (Mul (Const (norm_ppf (1 - beta))) (x_at_vec (mat_at_x z_cov)))
              (Sub (vec_at_x z_mean) (Const alpha))) \<in> set (portfolio_model norm_ppf)"
    by (simp add: portfolio_model_def Let_def)
  have c2: "eval a (Mul (Const (norm_ppf (1 - beta))) (x_at_vec (mat_at_x z_cov)))
      = norm_ppf (1 - beta) * quadratic_form x"
    by (simp add: eval_chance_lhs x_def)
  have c3: "eval a (Sub (vec_at_x z_mean) (Const alpha)) = mean_return x - alpha"
    by (simp add: eval_mean x_def)
  have c5: "sigma_norm x * sigma_norm x = quadratic_form x"
    using quadratic_form_nonneg [of x] by (simp add: sigma_norm_def)
  have c6: "quadratic_form x \<noteq> sigma_norm x" if "sigma_norm x \<noteq> 0" "sigma_norm x \<noteq> 1"
    using sqrt_fixed [OF quadratic_form_nonneg [of x]] that by (simp add: sigma_norm_def)
  show ?thesis
    unfolding Let_def x_def [symmetric]
    using c1 c2 c3 c5 c6 by (simp del: eval.simps)
qed

text \<open>
  With one third in each asset the quadratic form is \<open>13/9\<close>, its root is neither \<open>0\<close>
  nor \<open>1\<close>, and for the quantile \<open>1/2\<close> the two left-hand sides differ.
\<close>

theorem chance_constraint_quadratic_witness:
  "(\<lambda>p. 1 / 2 :: real) (1 - beta) \<noteq> 0
   \<and> sigma_norm (\<lambda>i. third_each (asset_var i)) \<noteq> 0
   \<and> sigma_norm (\<lambda>i. third_each (asset_var i)) \<noteq> 1
   \<and> quadratic_form (\<lambda>i. third_each (asset_var i)) = 13 / 9
   \<and> eval third_each (Mul (Const ((\<lambda>p. 1 / 2) (1 - beta))) (x_at_vec (mat_at_x z_cov)))
       \<noteq> (\<lambda>p. 1 / 2) (1 - beta) * sigma_norm (\<lambda>i. third_each (asset_var i))"
proof -
  have q: "quadratic_form (\<lambda>i. third_each (asset_var i)) = 13 / 9"
    by (simp add: quadratic_form_expand third_each_def)
  have s0: "sigma_norm (\<lambda>i. third_each (asset_var i)) \<noteq> 0"
    by (simp add: sigma_norm_def q)
  have s1: "sigma_norm (\<lambda>i. third_each (asset_var i)) \<noteq> 1"
    by (simp add: sigma_norm_def q)
  from chance_constraint_quadratic [of third_each "\<lambda>p. 1 / 2"] s0 s1 q show ?thesis
    unfolding Let_def by simp
qed

section \<open>The claim about the production planning script\<close>

text \<open>
  Claim C9.  The Version 1 script declares, in this order, the decision variables with
  their bounds (\<open>x_M\<close> in \<open>[0, inf)\<close>, \<open>x_A\<close> in \<open>[0, 80]\<close>, \<open>x_B\<close> in \<open>[0, 100]\<close>,
  \<open>y_U\<close> in \<open>[0, 40]\<close>, \<open>y_V\<close> in \<open>[0, inf)\<close>), the expressions \<open>revenue\<close> and \<open>expense\<close>
  (which it prints), the objective \<open>profit = revenue - expense\<close> with sense maximize and the
  three resource constraints; then it calls the solver \<open>cbc\<close> once, on the model so built;
  and only after the solve does it read back and display the values of the solution: the
  last event, which follows the solver call, shows for every variable the value the solver
  computed, and these are the values the variables hold at the end.  Everything the script
  shows before the solver call is the same whichever solver is used: the displays of the
  model made while it is built show every declared variable at its initial value \<open>0\<close>.
\<close>

theorem production_planning_v1_order:
  "ws_model (production_planning_v1 SolverFactory) = v1_variables @ [v1_objective] @ v1_constraints
   \<and> ws_log (production_planning_v1 SolverFactory) =
    [ModelDisplay [] [],
     ModelDisplay v1_variables (map (\<lambda>v. (v, Some 0)) v1_names),
     PrintExpr revenue,
     PrintExpr expense,
     ModelDisplay (v1_variables @ [v1_objective]) (map (\<lambda>v. (v, Some 0)) v1_names),
     ModelDisplay (v1_variables @ [v1_objective] @ v1_constraints) (map (\<lambda>v. (v, Some 0)) v1_names),
     SolverCall ''cbc'',
     ModelDisplay (v1_variables @ [v1_objective] @ v1_constraints)
       (map (\<lambda>v. (v, Some (solution (SolverFactory ''cbc'' (v1_variables @ [v1_objective] @ v1_constraints)) v)))
          v1_names)]
   \<and> take 6 (ws_log (production_planning_v1 SolverFactory)) =
       take 6 (ws_log (production_planning_v1 SolverFactory'))
   \<and> ws_log (production_planning_v1 SolverFactory) ! 6 = SolverCall ''cbc''
   \<and> drop 7 (ws_log (production_planning_v1 SolverFactory)) =
       [ModelDisplay (ws_model (production_planning_v1 SolverFactory))
          (map (\<lambda>v. (v, Some (solution
             (SolverFactory ''cbc'' (ws_model (production_planning_v1 SolverFactory))) v))) v1_names)]
   \<and> list_all (\<lambda>v. ws_values (production_planning_v1 SolverFactory) v =
         Some (solution (SolverFactory ''cbc'' (ws_model (production_planning_v1 SolverFactory))) v)) v1_names"
proof -
  have v: "list_all (\<lambda>v. ws_values (production_planning_v1 SolverFactory) v =
         Some (solution (SolverFactory ''cbc'' (v1_variables @ [v1_objective] @ v1_constraints)) v)) v1_names"
    by (simp add: production_planning_v1_def run_def declare_component_def display_def print_expr_def
      solve_def empty_workspace_def v1_variables_def v1_objective_def v1_constraints_def Let_def
      declared_vars_def v1_names_def)
  show ?thesis
    using v by (simp add: v1_log v1_model)
qed

section \<open>The claim about the models handed to a solver\<close>




section \<open>The claim about solver failures\<close>

text \<open>
  Claim C6.  No function of the notebooks branches on, recovers from, retries or
  classifies a solver failure.  Take two solvers that compute the same values for every
  model but may report any status and termination condition.  Then every function that
  drops the results object (\<open>max_min_profit\<close>, \<open>max_profit\<close>, \<open>max_expected_profit\<close>,
  \<open>pessimization_problem\<close>, the whole column and constraint generation loop, \<open>kelly\<close>,
  \<open>kelly_rc\<close>, both production planning scripts) returns the same result with both, and
  the two functions that keep the results object (\<open>portfolio\<close> and the chance-constraint
  script) return the same values and show the same events, up to the one status line in
  which they display the status and the termination condition.
\<close>

theorem solver_status_unused:
  assumes "\<forall>name m. solution (sf name m) = solution (sf' name m)"
  shows "max_min_profit sf mp Zs = max_min_profit sf' mp Zs
     \<and> max_profit sf mp Zs x = max_profit sf' mp Zs x
     \<and> max_expected_profit sf mp Zs = max_expected_profit sf' mp Zs
     \<and> pessimization_problem sf sp ms z_A_max z_B_max z_D_max G
         = pessimization_problem sf' sp ms z_A_max z_B_max z_D_max G
     \<and> ccg_loop sf st = ccg_loop sf' st
     \<and> kelly sf p b = kelly sf' p b
     \<and> kelly_rc sf p b lambd = kelly_rc sf' p b lambd
     \<and> production_planning_v1 sf = production_planning_v1 sf'
     \<and> production_planning_v2 sf = production_planning_v2 sf'
     \<and> snd (portfolio sf Gamma printflag) = snd (portfolio sf' Gamma printflag)
     \<and> filter (\<lambda>e. \<not> status_line e) (fst (portfolio sf Gamma printflag))
         = filter (\<lambda>e. \<not> status_line e) (fst (portfolio sf' Gamma printflag))
     \<and> filter status_line (fst (portfolio sf Gamma printflag))
         = (if printflag
            then [SolverStatus (status (sf ''cbc'' (robust_portfolio_model Gamma)))
                    (termination_condition (sf ''cbc'' (robust_portfolio_model Gamma)))]
            else [])
     \<and> filter (\<lambda>e. \<not> status_line e) (portfolio_script sf norm_ppf)
         = filter (\<lambda>e. \<not> status_line e) (portfolio_script sf' norm_ppf)
     \<and> filter status_line (portfolio_script sf norm_ppf)
         = [SolverStatus (status (sf ''cplex_direct'' (portfolio_model norm_ppf)))
              (termination_condition (sf ''cplex_direct'' (portfolio_model norm_ppf)))]"
proof -
  have s: "\<And>name m. solution (sf name m) = solution (sf' name m)"
    using assms by simp
  have c1: "max_min_profit sf mp Zs = max_min_profit sf' mp Zs"
    by (simp add: max_min_profit_def s)
  have c2: "max_profit sf mp Zs x = max_profit sf' mp Zs x"
    by (simp add: max_profit_def s)
  have c3: "max_expected_profit sf mp Zs = max_expected_profit sf' mp Zs"
    by (simp add: max_expected_profit_def s)
  have c4: "pessimization_problem sf sp ms z_A_max z_B_max z_D_max G
         = pessimization_problem sf' sp ms z_A_max z_B_max z_D_max G"
    by (simp add: pessimization_problem_def s)
  have c5: "ccg_loop sf st = ccg_loop sf' st"
    using s by (rule ccg_loop_same)
  have c6: "kelly sf p b = kelly sf' p b" "kelly_rc sf p b lambd = kelly_rc sf' p b lambd"
    by (simp_all add: kelly_def kelly_rc_def s)
  have sv: "\<And>name. solve sf name = solve sf' name"
    by (rule ext) (simp add: solve_def s cong: if_cong)
  have c7: "production_planning_v1 sf = production_planning_v1 sf'"
    by (simp only: production_planning_v1_def sv)
  have c8: "production_planning_v2 sf = production_planning_v2 sf'"
    by (simp only: production_planning_v2_def sv)
  have c9: "snd (portfolio sf Gamma printflag) = snd (portfolio sf' Gamma printflag)"
    by (simp add: portfolio_def Let_def s)
  have c10: "filter (\<lambda>e. \<not> status_line e) (fst (portfolio sf Gamma printflag))
         = filter (\<lambda>e. \<not> status_line e) (fst (portfolio sf' Gamma printflag))"
    by (simp add: portfolio_def Let_def s filter_map comp_def del: upt_Suc)
  have c11: "filter status_line (fst (portfolio sf Gamma printflag))
         = (if printflag
            then [SolverStatus (status (sf ''cbc'' (robust_portfolio_model Gamma)))
                    (termination_condition (sf ''cbc'' (robust_portfolio_model Gamma)))]
            else [])"
    by (simp add: portfolio_def Let_def filter_map comp_def del: upt_Suc)
  have c12: "filter (\<lambda>e. \<not> status_line e) (portfolio_script sf norm_ppf)
         = filter (\<lambda>e. \<not> status_line e) (portfolio_script sf' norm_ppf)"
    by (simp add: portfolio_script_def Let_def s del: eval.simps)
  have c13: "filter status_line (portfolio_script sf norm_ppf)
         = [SolverStatus (status (sf ''cplex_direct'' (portfolio_model norm_ppf)))
              (termination_condition (sf ''cplex_direct'' (portfolio_model norm_ppf)))]"
    by (simp add: portfolio_script_def Let_def)
  from c1 c2 c3 c4 c5 c6 c7 c8 c9 c10 c11 c12 c13 show ?thesis
    by (intro conjI)
qed

text \<open>
  Two such solvers: both assign \<open>0\<close> to every variable, one reports an optimal
  solution and the other an infeasible model; the loop and \<open>portfolio\<close> return the same
  with both.
\<close>

theorem solver_status_unused_witness:
  "(\<forall>name m. solution (constant_solver 0 name m) = solution (failing_solver 0 name m))
   \<and> termination_condition (constant_solver 0 ''cbc'' []) \<noteq> termination_condition (failing_solver 0 ''cbc'' [])
   \<and> ccg_loop (constant_solver 0) ccg_init = ccg_loop (failing_solver 0) ccg_init
   \<and> snd (portfolio (constant_solver 0) 20 True) = snd (portfolio (failing_solver 0) 20 True)"
proof -
  have h: "\<forall>name m. solution (constant_solver 0 name m) = solution (failing_solver 0 name m)"
    by (simp add: constant_solver_def failing_solver_def)
  have d: "termination_condition (constant_solver 0 ''cbc'' []) \<noteq> termination_condition (failing_solver 0 ''cbc'' [])"
    by (simp add: constant_solver_def failing_solver_def)
  from solver_status_unused [OF h, where st = ccg_init and Gamma = 20 and printflag = True] h d
  show ?thesis by blast
qed

section \<open>The claim about the parameter-building functions\<close>

text \<open>
  Claim C10.  \<open>model_params\<close> and \<open>subproblem_params\<close> are deterministic and keep no
  state, and they return freshly constructed nested dictionaries.  A call of
  \<open>model_params\<close>, in any heap, returns five references to dictionaries that the call
  itself has created (their addresses were unused before the call and are used after it),
  and these dictionaries, read through the new heap, are exactly the nested dictionaries of
  \<open>model_params z_A z_B z_D\<close>: so two calls with equal arguments in any two heaps return
  equal nested dictionaries.  A call of \<open>subproblem_params\<close> on a solution dictionary
  raises exactly when the value-level function does on its numbers, and otherwise returns
  two references to dictionaries created by the call whose contents are those of the
  value-level result; two calls on solution dictionaries holding the same numbers agree.
  Each call leaves every object of the heap it starts in as it was.  The results of two
  successive calls lie in disjoint ranges of addresses, so they share no dictionary, and the
  first result still reads as the same nested dictionaries after the second call.
\<close>

theorem params_fresh_and_deterministic:
  assumes "wf_heap h1" "wf_heap h2"
    and "store h1 a1 = Some d1" "store h2 a2 = Some d2" "numeric_items d1 = numeric_items d2"
  shows
   "(case (model_params_heap z_A z_B z_D h1, model_params_heap z_A z_B z_D h2) of
       ((vs1, h1'), (vs2, h2')) \<Rightarrow>
           list_all2 (repr_in (next_addr h1) (next_addr h1') h1') vs1
             (params_literals (model_params z_A z_B z_D))
         \<and> list_all2 (repr_in (next_addr h2) (next_addr h2') h2') vs2
             (params_literals (model_params z_A z_B z_D))
         \<and> fresh_dicts h1 h1' vs1 \<and> fresh_dicts h2 h2' vs2
         \<and> extends h1 h1' \<and> extends h2 h2' \<and> wf_heap h1' \<and> wf_heap h2')
    \<and> (case subproblem_params (numeric_items d1) of
         None \<Rightarrow>
           subproblem_params_heap (Ref a1) h1 = None \<and> subproblem_params_heap (Ref a2) h2 = None
       | Some LR \<Rightarrow>
           (case (subproblem_params_heap (Ref a1) h1, subproblem_params_heap (Ref a2) h2) of
              (Some (vs1, h1'), Some (vs2, h2')) \<Rightarrow>
                  list_all2 (repr_in (next_addr h1) (next_addr h1') h1') vs1 (subparams_literals LR)
                \<and> list_all2 (repr_in (next_addr h2) (next_addr h2') h2') vs2 (subparams_literals LR)
                \<and> fresh_dicts h1 h1' vs1 \<and> fresh_dicts h2 h2' vs2
                \<and> extends h1 h1' \<and> extends h2 h2' \<and> wf_heap h1' \<and> wf_heap h2'
            | (Some r, None) \<Rightarrow> False
            | (None, r) \<Rightarrow> False))
    \<and> (case model_params_heap z_A z_B z_D h1 of
         (vs1, h') \<Rightarrow>
           case model_params_heap z_A' z_B' z_D' h' of
             (vs2, h'') \<Rightarrow>
                 list_all2 (repr_in (next_addr h1) (next_addr h') h'') vs1
                   (params_literals (model_params z_A z_B z_D))
               \<and> list_all2 (repr_in (next_addr h') (next_addr h'') h'') vs2
                   (params_literals (model_params z_A' z_B' z_D'))
               \<and> next_addr h1 \<le> next_addr h' \<and> next_addr h' \<le> next_addr h'')"
proof (intro conjI)
  obtain vs1 h1' where m1: "model_params_heap z_A z_B z_D h1 = (vs1, h1')"
    by (cases "model_params_heap z_A z_B z_D h1")
  obtain vs2 h2' where m2: "model_params_heap z_A z_B z_D h2 = (vs2, h2')"
    by (cases "model_params_heap z_A z_B z_D h2")
  from model_params_heap_fresh [OF assms(1) m1] model_params_heap_fresh [OF assms(2) m2]
  show "case (model_params_heap z_A z_B z_D h1, model_params_heap z_A z_B z_D h2) of
       ((vs1, h1'), (vs2, h2')) \<Rightarrow>
           list_all2 (repr_in (next_addr h1) (next_addr h1') h1') vs1
             (params_literals (model_params z_A z_B z_D))
         \<and> list_all2 (repr_in (next_addr h2) (next_addr h2') h2') vs2
             (params_literals (model_params z_A z_B z_D))
         \<and> fresh_dicts h1 h1' vs1 \<and> fresh_dicts h2 h2' vs2
         \<and> extends h1 h1' \<and> extends h2 h2' \<and> wf_heap h1' \<and> wf_heap h2'"
    by (simp add: m1 m2)
next
  show "case subproblem_params (numeric_items d1) of
         None \<Rightarrow>
           subproblem_params_heap (Ref a1) h1 = None \<and> subproblem_params_heap (Ref a2) h2 = None
       | Some LR \<Rightarrow>
           (case (subproblem_params_heap (Ref a1) h1, subproblem_params_heap (Ref a2) h2) of
              (Some (vs1, h1'), Some (vs2, h2')) \<Rightarrow>
                  list_all2 (repr_in (next_addr h1) (next_addr h1') h1') vs1 (subparams_literals LR)
                \<and> list_all2 (repr_in (next_addr h2) (next_addr h2') h2') vs2 (subparams_literals LR)
                \<and> fresh_dicts h1 h1' vs1 \<and> fresh_dicts h2 h2' vs2
                \<and> extends h1 h1' \<and> extends h2 h2' \<and> wf_heap h1' \<and> wf_heap h2'
            | (Some r, None) \<Rightarrow> False
            | (None, r) \<Rightarrow> False)"
  proof (cases "subproblem_params (numeric_items d1)")
    case None
    with subproblem_params_heap_fresh [OF assms(1,3)]
      subproblem_params_heap_fresh [OF assms(2,4)] assms(5)
    show ?thesis by simp
  next
    case (Some LR)
    from subproblem_params_heap_fresh [OF assms(1,3)] Some obtain vs1 h1' where
      s1: "subproblem_params_heap (Ref a1) h1 = Some (vs1, h1')"
      and p1: "list_all2 (repr_in (next_addr h1) (next_addr h1') h1') vs1 (subparams_literals LR)"
        "fresh_dicts h1 h1' vs1" "extends h1 h1'" "wf_heap h1'"
      by auto
    from subproblem_params_heap_fresh [OF assms(2,4)] Some assms(5) obtain vs2 h2' where
      s2: "subproblem_params_heap (Ref a2) h2 = Some (vs2, h2')"
      and p2: "list_all2 (repr_in (next_addr h2) (next_addr h2') h2') vs2 (subparams_literals LR)"
        "fresh_dicts h2 h2' vs2" "extends h2 h2'" "wf_heap h2'"
      by auto
    from p1 p2 show ?thesis by (simp add: Some s1 s2)
  qed
next
  obtain vs1 h' where m1: "model_params_heap z_A z_B z_D h1 = (vs1, h')"
    by (cases "model_params_heap z_A z_B z_D h1")
  obtain vs2 h'' where m2: "model_params_heap z_A' z_B' z_D' h' = (vs2, h'')"
    by (cases "model_params_heap z_A' z_B' z_D' h'")
  from successive_calls_literals [OF assms(1) m1 m2]
  show "case model_params_heap z_A z_B z_D h1 of
         (vs1, h') \<Rightarrow>
           case model_params_heap z_A' z_B' z_D' h' of
             (vs2, h'') \<Rightarrow>
                 list_all2 (repr_in (next_addr h1) (next_addr h') h'') vs1
                   (params_literals (model_params z_A z_B z_D))
               \<and> list_all2 (repr_in (next_addr h') (next_addr h'') h'') vs2
                   (params_literals (model_params z_A' z_B' z_D'))
               \<and> next_addr h1 \<le> next_addr h' \<and> next_addr h' \<le> next_addr h''"
    by (simp add: m1 m2)
qed

text \<open>
  The hypotheses hold for the two example heaps, which hold the same solution dictionary at
  different addresses: \<open>model_params()\<close> returns the nested dictionaries of the nominal
  parameters in both, in objects that the call created, and \<open>subproblem_params\<close>
  returns in both the two dictionaries of the value-level result.
\<close>

theorem params_fresh_and_deterministic_witness:
  "wf_heap heap_a \<and> wf_heap heap_b
   \<and> store heap_a 0 = Some solution_dict \<and> store heap_b 1 = Some solution_dict
   \<and> list_all2 (repr_in (next_addr heap_a) (next_addr (snd (model_params_heap 0 0 0 heap_a)))
                          (snd (model_params_heap 0 0 0 heap_a)))
                 (fst (model_params_heap 0 0 0 heap_a)) (params_literals (model_params 0 0 0))
   \<and> list_all2 (repr_in (next_addr heap_b) (next_addr (snd (model_params_heap 0 0 0 heap_b)))
                          (snd (model_params_heap 0 0 0 heap_b)))
                 (fst (model_params_heap 0 0 0 heap_b)) (params_literals (model_params 0 0 0))
   \<and> fresh_dicts heap_a (snd (model_params_heap 0 0 0 heap_a)) (fst (model_params_heap 0 0 0 heap_a))
   \<and> fresh_dicts heap_b (snd (model_params_heap 0 0 0 heap_b)) (fst (model_params_heap 0 0 0 heap_b))
   \<and> subproblem_params (numeric_items solution_dict) \<noteq> None
   \<and> (\<exists>vs1 h1' vs2 h2'.
          subproblem_params_heap (Ref 0) heap_a = Some (vs1, h1')
        \<and> subproblem_params_heap (Ref 1) heap_b = Some (vs2, h2')
        \<and> list_all2 (repr_in (next_addr heap_a) (next_addr h1') h1') vs1
              (subparams_literals (the (subproblem_params (numeric_items solution_dict))))
        \<and> list_all2 (repr_in (next_addr heap_b) (next_addr h2') h2') vs2
              (subparams_literals (the (subproblem_params (numeric_items solution_dict))))
        \<and> fresh_dicts heap_a h1' vs1 \<and> fresh_dicts heap_b h2' vs2)"
proof -
  have w: "wf_heap heap_a" "wf_heap heap_b"
    by (simp_all add: wf_heap_def heap_a_def heap_b_def)
  have d: "store heap_a 0 = Some solution_dict" "store heap_b 1 = Some solution_dict"
    by (simp_all add: heap_a_def heap_b_def)
  have s: "subproblem_params (numeric_items solution_dict) \<noteq> None"
    by (simp add: numeric_items_def solution_dict_def
        List.map_filter_simps subproblem_params_def getitem_def)
  from params_fresh_and_deterministic [OF w d refl, of 0 0 0 0 0 0] w d s show ?thesis
    by (auto split: prod.splits option.splits)
qed

end
